theory Spec2Isabelle
  imports Main "HOL-Library.Word"
begin

unbundle bit_operations_syntax

section \<open>C scalar types and the casts of the call site\<close>

text \<open>
  The kernel is built for LP64 targets: \<open>int\<close> has 32 bits and \<open>long\<close> has 64.
  A \<open>float\<close> is its IEEE-754 binary32 bit pattern, a \<open>double\<close> its binary64 bit
  pattern, so that a cast is a function on bits and nothing about rounding is assumed.
\<close>

type_synonym c_int = "32 word"
type_synonym c_long = "64 word"
type_synonym float32 = "32 word"
type_synonym double = "64 word"

text \<open>\<open>(long) x\<close> for an \<open>int x\<close>: sign extension.\<close>

definition long_of_int :: "c_int \<Rightarrow> c_long" where
  "long_of_int x = scast x"

text \<open>Index of the most significant set bit (0 for 0 and 1).\<close>

fun floor_log2 :: "nat \<Rightarrow> nat" where
  "floor_log2 n = (if n < 2 then 0 else Suc (floor_log2 (n div 2)))"

declare floor_log2.simps [simp del]

text \<open>
  \<open>(double) x\<close> for a \<open>float x\<close>. The sign is kept; a normal number has its
  exponent rebiased (1023 - 127 = 896) and its fraction moved to the top of the 52
  fraction bits; a subnormal float is a normal double, so its leading one becomes the
  implicit bit; infinities stay infinities and a NaN stays a NaN (quiet, payload kept).
\<close>

definition double_of_float :: "float32 \<Rightarrow> double" where
  "double_of_float x =
     (let s = (ucast (drop_bit 31 x) :: double);
          e = unat (take_bit 8 (drop_bit 23 x));
          f = take_bit 23 x
      in push_bit 63 s OR
         (if e = 255 then
            push_bit 52 2047 OR push_bit 29 (ucast f) OR (if f = 0 then 0 else push_bit 51 1)
          else if e = 0 then
            (if f = 0 then 0
             else let k = floor_log2 (unat f)
                  in push_bit 52 (of_nat (k + 874)) OR take_bit 52 (push_bit (52 - k) (ucast f)))
          else push_bit 52 (of_nat (e + 896)) OR push_bit 29 (ucast f)))"

text \<open>
  What a bit pattern stands for, to compare the two formats: a NaN, an infinity with its
  sign, or a finite number given by its sign and its magnitude in units of 2^-1074 (the
  smallest positive double), in which every finite float and double is a whole number.
\<close>

datatype fp_value = Finite bool nat | Infinity bool | NaN

definition float_value :: "float32 \<Rightarrow> fp_value" where
  "float_value x =
     (let s = bit x 31;
          e = unat (take_bit 8 (drop_bit 23 x));
          f = unat (take_bit 23 x)
      in if e = 255 then (if f = 0 then Infinity s else NaN)
         else Finite s (if e = 0 then f * 2 ^ 925 else (2 ^ 23 + f) * 2 ^ (e + 924)))"

definition double_value :: "double \<Rightarrow> fp_value" where
  "double_value y =
     (let s = bit y 63;
          e = unat (take_bit 11 (drop_bit 52 y));
          f = unat (take_bit 52 y)
      in if e = 2047 then (if f = 0 then Infinity s else NaN)
         else Finite s (if e = 0 then f else (2 ^ 52 + f) * 2 ^ (e - 1)))"

section \<open>The host framework: status, tensors, kernel contexts\<close>

datatype error_code = INTERNAL | RESOURCE_EXHAUSTED | INVALID_ARGUMENT | NOT_FOUND

datatype error = Error error_code string

text \<open>A \<open>Status\<close> is OK (\<open>None\<close>) or an error.\<close>

type_synonym Status = "error option"

text \<open>\<open>errors::Internal(msg)\<close>\<close>

definition Internal :: "string \<Rightarrow> error" where
  "Internal msg = Error INTERNAL msg"

datatype DataType = DT_FLOAT | DT_DOUBLE | DT_INT32 | DT_INT64

text \<open>
  A tensor is a dtype, a shape and a view of a buffer of floats in row-major order:
  \<open>buf t i\<close> is the element at flat index \<open>i\<close>. The shape, not the buffer, says how
  many elements belong to the tensor.
\<close>

type_synonym buffer = "nat \<Rightarrow> float32"

record Tensor =
  dtype :: DataType
  shape :: "int list"
  buf :: buffer

definition num_elements :: "int list \<Rightarrow> nat" where
  "num_elements shp = nat (prod_list shp)"

text \<open>The elements of a tensor in order, as \<open>flat<float>()\<close> shows them.\<close>

definition flat :: "Tensor \<Rightarrow> float32 list" where
  "flat t = map (buf t) [0..<num_elements (shape t)]"

text \<open>The rows of an \<open>[n, 2]\<close> tensor as pairs (Gx, Gy).\<close>

definition samples :: "Tensor \<Rightarrow> (float32 \<times> float32) list" where
  "samples t = map (\<lambda>r. (buf t (2 * r), buf t (2 * r + 1))) [0..<nat (hd (shape t))]"

text \<open>
  \<open>Tensor::Slice(start, limit)\<close>: the sub-tensor of rows \<open>start..<limit\<close> along the
  first dimension, sharing the buffer. The framework requires
  \<open>dims() \<ge> 1\<close> and \<open>0 \<le> start \<le> limit \<le> dim_size(0)\<close> with fatal checks: a
  violated check aborts the process, which is \<open>None\<close> here.
\<close>

definition Slice :: "Tensor \<Rightarrow> int \<Rightarrow> int \<Rightarrow> Tensor option" where
  "Slice t start limit =
     (case shape t of
        [] \<Rightarrow> None
      | dim0 # rest \<Rightarrow>
          if 0 \<le> start \<and> start \<le> limit \<and> limit \<le> dim0
          then Some \<lparr>dtype = dtype t, shape = (limit - start) # rest,
                     buf = (\<lambda>i. buf t (nat start * num_elements rest + i))\<rparr>
          else None)"

text \<open>
  The context of one \<open>Compute\<close> call: its status, its output slots, and the answer of
  the device allocator to a request for a temporary of \<open>n\<close> elements (an error, or
  a block whose contents are whatever the memory held).
\<close>

record OpKernelContext =
  status :: Status
  outputs :: "nat \<rightharpoonup> Tensor"
  temp_allocator :: "nat \<Rightarrow> error + buffer"

definition allocate_temp :: "OpKernelContext \<Rightarrow> DataType \<Rightarrow> int list \<Rightarrow> error + Tensor" where
  "allocate_temp ctx dt shp =
     (case temp_allocator ctx (num_elements shp) of
        Inl s \<Rightarrow> Inl s
      | Inr mem \<Rightarrow> Inr \<lparr>dtype = dt, shape = shp, buf = mem\<rparr>)"

definition set_output :: "OpKernelContext \<Rightarrow> nat \<Rightarrow> Tensor \<Rightarrow> OpKernelContext" where
  "set_output ctx i t = ctx\<lparr>outputs := (outputs ctx)(i \<mapsto> t)\<rparr>"

text \<open>
  What \<open>OP_REQUIRES\<close> and \<open>OP_REQUIRES_OK\<close> do before they return: hand the error
  to the context, which records it unless it already holds one (the first error stays).
\<close>

definition CtxFailure :: "OpKernelContext \<Rightarrow> error \<Rightarrow> OpKernelContext" where
  "CtxFailure ctx s = (case status ctx of None \<Rightarrow> ctx\<lparr>status := Some s\<rparr> | Some s0 \<Rightarrow> ctx)"

text \<open>
  The construction context answers \<open>GetAttr(name, &field)\<close> for an \<open>int\<close> field and
  for a \<open>float\<close> field.
\<close>

record OpKernelConstruction =
  GetAttr_int :: "string \<Rightarrow> error + c_int"
  GetAttr_float :: "string \<Rightarrow> error + float32"

text \<open>\<open>OP_REQUIRES_OK\<close> in the constructor: leave with the error, or go on with the value.\<close>

definition OP_REQUIRES_OK :: "error + 'a \<Rightarrow> ('a \<Rightarrow> error + 'b) \<Rightarrow> error + 'b" where
  "OP_REQUIRES_OK r k = (case r of Inl s \<Rightarrow> Inl s | Inr v \<Rightarrow> k v)"

section \<open>The third-party header \<open>spiral_waveform.h\<close>\<close>

text \<open>
  The header is not part of the kernel's source file; its capacity constant and its
  routine are parameters. The routine gets the buffer behind the \<open>float*\<close>, the value
  behind the \<open>long*\<close> and nine scalars, and gives back its \<open>int\<close> result, the buffer
  as it left it and the length it stored.
\<close>

record spiral_waveform_h =
  SWF_MAX_WAVEFORM_SIZE :: nat
  calculate_spiral_trajectory ::
    "buffer \<Rightarrow> c_long \<Rightarrow> c_long \<Rightarrow> c_long \<Rightarrow> double \<Rightarrow> double \<Rightarrow> double \<Rightarrow> double \<Rightarrow>
     double \<Rightarrow> double \<Rightarrow> double \<Rightarrow> c_int \<times> buffer \<times> c_long"

section \<open>The kernel \<open>SpiralWaveformOp\<close>\<close>

text \<open>
  The nine private fields \<open>base_resolution_\<close> to \<open>larmor_const_\<close>, two \<open>int\<close>
  and seven \<open>float\<close>, named here without the trailing underscore.
\<close>

record SpiralWaveformOp =
  base_resolution :: c_int
  spiral_arms :: c_int
  field_of_view :: float32
  max_grad_ampl :: float32
  min_rise_time :: float32
  dwell_time :: float32
  readout_os :: float32
  gradient_delay :: float32
  larmor_const :: float32

text \<open>The constructor reads the nine attributes in order and stops at the first error.\<close>

definition new_SpiralWaveformOp :: "OpKernelConstruction \<Rightarrow> error + SpiralWaveformOp" where
  "new_SpiralWaveformOp ctx =
     OP_REQUIRES_OK (GetAttr_int ctx ''base_resolution'') (\<lambda>a1.
     OP_REQUIRES_OK (GetAttr_int ctx ''spiral_arms'') (\<lambda>a2.
     OP_REQUIRES_OK (GetAttr_float ctx ''field_of_view'') (\<lambda>a3.
     OP_REQUIRES_OK (GetAttr_float ctx ''max_grad_ampl'') (\<lambda>a4.
     OP_REQUIRES_OK (GetAttr_float ctx ''min_rise_time'') (\<lambda>a5.
     OP_REQUIRES_OK (GetAttr_float ctx ''dwell_time'') (\<lambda>a6.
     OP_REQUIRES_OK (GetAttr_float ctx ''readout_os'') (\<lambda>a7.
     OP_REQUIRES_OK (GetAttr_float ctx ''gradient_delay'') (\<lambda>a8.
     OP_REQUIRES_OK (GetAttr_float ctx ''larmor_const'') (\<lambda>a9.
     Inr \<lparr>base_resolution = a1, spiral_arms = a2, field_of_view = a3,
          max_grad_ampl = a4, min_rise_time = a5, dwell_time = a6,
          readout_os = a7, gradient_delay = a8, larmor_const = a9\<rparr>)))))))))"

text \<open>
  What \<open>Compute\<close> asks of its surroundings, in the order it asks: a temporary tensor
  from the context, and the routine with its eleven arguments.
\<close>

datatype event =
    AllocateTemp DataType "int list"
  | CalculateSpiralTrajectory buffer c_long c_long c_long double double double double
      double double double

text \<open>
  One run of \<open>Compute\<close>: the requests it made, the kernel object as the run left
  it, and how the run ended: \<open>None\<close> when a fatal check of the framework stopped the
  process, otherwise the context as \<open>Compute\<close> left it.
\<close>

record execution =
  trace :: "event list"
  kernel_object :: SpiralWaveformOp
  outcome :: "OpKernelContext option"

definition Compute :: "spiral_waveform_h \<Rightarrow> SpiralWaveformOp \<Rightarrow> OpKernelContext \<Rightarrow> execution" where
  "Compute lib self ctx =
     (let temp_waveform_shape = [int (SWF_MAX_WAVEFORM_SIZE lib), 2];
          ev1 = AllocateTemp DT_FLOAT temp_waveform_shape
      in case allocate_temp ctx DT_FLOAT temp_waveform_shape of
           Inl s \<Rightarrow> \<lparr>trace = [ev1], kernel_object = self, outcome = Some (CtxFailure ctx s)\<rparr>
         | Inr temp_waveform \<Rightarrow>
            (let waveform_length = 0;
                 a1 = long_of_int (base_resolution self);
                 a2 = long_of_int (spiral_arms self);
                 a3 = double_of_float (field_of_view self);
                 a4 = double_of_float (max_grad_ampl self);
                 a5 = double_of_float (min_rise_time self);
                 a6 = double_of_float (dwell_time self);
                 a7 = double_of_float (readout_os self);
                 a8 = double_of_float (gradient_delay self);
                 a9 = double_of_float (larmor_const self);
                 ev2 = CalculateSpiralTrajectory (buf temp_waveform) waveform_length
                         a1 a2 a3 a4 a5 a6 a7 a8 a9;
                 (result, written, waveform_length') =
                    calculate_spiral_trajectory lib (buf temp_waveform) waveform_length
                         a1 a2 a3 a4 a5 a6 a7 a8 a9;
                 temp_waveform' = temp_waveform\<lparr>buf := written\<rparr>
             in if result \<noteq> 0 then
                  \<lparr>trace = [ev1, ev2], kernel_object = self,
                   outcome = Some (CtxFailure ctx
                     (Internal ''failed during `calculate_spiral_trajectory`''))\<rparr>
                else
                  (case Slice temp_waveform' 0 (sint waveform_length') of
                     None \<Rightarrow> \<lparr>trace = [ev1, ev2], kernel_object = self, outcome = None\<rparr>
                   | Some waveform \<Rightarrow>
                       \<lparr>trace = [ev1, ev2], kernel_object = self,
                        outcome = Some (set_output ctx 0 waveform)\<rparr>)))"

section \<open>Vocabulary for the properties\<close>

text \<open>
  What the routine answers when \<open>Compute\<close> of this kernel calls it on a temporary
  whose memory holds \<open>mem\<close>: its result, the buffer as it leaves it, the stored length.
\<close>

definition generator_result ::
    "spiral_waveform_h \<Rightarrow> SpiralWaveformOp \<Rightarrow> buffer \<Rightarrow> c_int \<times> buffer \<times> c_long" where
  "generator_result lib self mem =
     calculate_spiral_trajectory lib mem 0
       (long_of_int (base_resolution self)) (long_of_int (spiral_arms self))
       (double_of_float (field_of_view self)) (double_of_float (max_grad_ampl self))
       (double_of_float (min_rise_time self)) (double_of_float (dwell_time self))
       (double_of_float (readout_os self)) (double_of_float (gradient_delay self))
       (double_of_float (larmor_const self))"

text \<open>The number of elements \<open>Compute\<close> asks the allocator for.\<close>

definition temp_size :: "spiral_waveform_h \<Rightarrow> nat" where
  "temp_size lib = 2 * SWF_MAX_WAVEFORM_SIZE lib"

text \<open>The temporary tensor after the routine has run on it.\<close>

definition filled_temp :: "spiral_waveform_h \<Rightarrow> buffer \<Rightarrow> Tensor" where
  "filled_temp lib written =
     \<lparr>dtype = DT_FLOAT, shape = [int (SWF_MAX_WAVEFORM_SIZE lib), 2], buf = written\<rparr>"

text \<open>A run was stopped by a fatal check.\<close>

definition aborted :: "execution \<Rightarrow> bool" where
  "aborted ex = (outcome ex = None)"

text \<open>The status the framework finds in the context after the run.\<close>

definition reported_error :: "execution \<Rightarrow> error option" where
  "reported_error ex = (case outcome ex of None \<Rightarrow> None | Some ctx' \<Rightarrow> status ctx')"

text \<open>The waveform the caller receives: output 0 of a run that ended with status OK.\<close>

definition returned_waveform :: "execution \<Rightarrow> Tensor option" where
  "returned_waveform ex =
     (case outcome ex of
        None \<Rightarrow> None
      | Some ctx' \<Rightarrow> (case status ctx' of None \<Rightarrow> outputs ctx' 0 | Some e \<Rightarrow> None))"

text \<open>What a caller can tell one run from another by.\<close>

definition observable ::
    "execution \<Rightarrow> bool \<times> error option \<times> (DataType \<times> int list \<times> float32 list) option" where
  "observable ex =
     (aborted ex, reported_error ex,
      map_option (\<lambda>w. (dtype w, shape w, flat w)) (returned_waveform ex))"

text \<open>Two answers of the allocator that differ at most in what the memory held.\<close>

fun same_allocation_outcome :: "error + buffer \<Rightarrow> error + buffer \<Rightarrow> bool" where
  "same_allocation_outcome (Inl e) (Inl e') = (e = e')"
| "same_allocation_outcome (Inr m) (Inr m') = True"
| "same_allocation_outcome (Inl e) (Inr m') = False"
| "same_allocation_outcome (Inr m) (Inl e') = False"

fun is_call :: "event \<Rightarrow> bool" where
  "is_call (CalculateSpiralTrajectory p l a1 a2 a3 a4 a5 a6 a7 a8 a9) = True"
| "is_call (AllocateTemp dt shp) = False"

text \<open>
  The routine as a function of its numeric arguments: its result, the length it stores
  and the rows it reports do not depend on what the buffer held before the call.
\<close>

definition ignores_prior_contents :: "spiral_waveform_h \<Rightarrow> bool" where
  "ignores_prior_contents lib =
     (\<forall>mem mem' l a1 a2 a3 a4 a5 a6 a7 a8 a9.
        fst (calculate_spiral_trajectory lib mem l a1 a2 a3 a4 a5 a6 a7 a8 a9) =
          fst (calculate_spiral_trajectory lib mem' l a1 a2 a3 a4 a5 a6 a7 a8 a9) \<and>
        snd (snd (calculate_spiral_trajectory lib mem l a1 a2 a3 a4 a5 a6 a7 a8 a9)) =
          snd (snd (calculate_spiral_trajectory lib mem' l a1 a2 a3 a4 a5 a6 a7 a8 a9)) \<and>
        (\<forall>i < 2 * nat (sint (snd (snd
                 (calculate_spiral_trajectory lib mem l a1 a2 a3 a4 a5 a6 a7 a8 a9)))).
           fst (snd (calculate_spiral_trajectory lib mem l a1 a2 a3 a4 a5 a6 a7 a8 a9)) i =
           fst (snd (calculate_spiral_trajectory lib mem' l a1 a2 a3 a4 a5 a6 a7 a8 a9)) i))"

section \<open>The guarantee of the generator\<close>

text \<open>
  Modelled from the spec: the guarantee of \<open>calculate_spiral_trajectory\<close>, the
  generator of the third-party library, whose code is missing. The spec (data model,
  component design and testable properties) asks of valid acquisition parameters that
  base_resolution and spiral_arms are positive integers, that field_of_view,
  max_grad_ampl, min_rise_time, dwell_time and larmor_const are positive reals, that
  readout_os is at least 1 and that gradient_delay is a real of either sign; and it
  promises that for valid parameters a waveform that is returned has a length L with
  1 \<le> L \<le> max capacity.
\<close>

fun positive_real :: "fp_value \<Rightarrow> bool" where
  "positive_real (Finite s m) = (\<not> s \<and> 0 < m)"
| "positive_real (Infinity s) = False"
| "positive_real NaN = False"

fun signed_real :: "fp_value \<Rightarrow> bool" where
  "signed_real (Finite s m) = True"
| "signed_real (Infinity s) = False"
| "signed_real NaN = False"

text \<open>1.0 is 2^1074 units of 2^-1074.\<close>

fun at_least_one :: "fp_value \<Rightarrow> bool" where
  "at_least_one (Finite s m) = (\<not> s \<and> 2 ^ 1074 \<le> m)"
| "at_least_one (Infinity s) = False"
| "at_least_one NaN = False"

text \<open>Valid acquisition parameters, as the kernel object holds them.\<close>

definition valid_parameters :: "SpiralWaveformOp \<Rightarrow> bool" where
  "valid_parameters self =
     (0 < sint (base_resolution self) \<and> 0 < sint (spiral_arms self) \<and>
      positive_real (float_value (field_of_view self)) \<and>
      positive_real (float_value (max_grad_ampl self)) \<and>
      positive_real (float_value (min_rise_time self)) \<and>
      positive_real (float_value (dwell_time self)) \<and>
      at_least_one (float_value (readout_os self)) \<and>
      signed_real (float_value (gradient_delay self)) \<and>
      positive_real (float_value (larmor_const self)))"

text \<open>Valid acquisition parameters, as the generator receives them.\<close>

definition valid_arguments ::
    "c_long \<Rightarrow> c_long \<Rightarrow> double \<Rightarrow> double \<Rightarrow> double \<Rightarrow> double \<Rightarrow> double \<Rightarrow> double \<Rightarrow>
     double \<Rightarrow> bool" where
  "valid_arguments a1 a2 a3 a4 a5 a6 a7 a8 a9 =
     (0 < sint a1 \<and> 0 < sint a2 \<and>
      positive_real (double_value a3) \<and> positive_real (double_value a4) \<and>
      positive_real (double_value a5) \<and> positive_real (double_value a6) \<and>
      at_least_one (double_value a7) \<and> signed_real (double_value a8) \<and>
      positive_real (double_value a9))"

text \<open>
  The guarantee: on valid arguments, a call that returns 0 has stored a length between 1
  and the capacity.
\<close>

definition generator_guarantee :: "spiral_waveform_h \<Rightarrow> bool" where
  "generator_guarantee lib =
     (\<forall>mem l a1 a2 a3 a4 a5 a6 a7 a8 a9.
        valid_arguments a1 a2 a3 a4 a5 a6 a7 a8 a9 \<longrightarrow>
        fst (calculate_spiral_trajectory lib mem l a1 a2 a3 a4 a5 a6 a7 a8 a9) = 0 \<longrightarrow>
        1 \<le> sint (snd (snd (calculate_spiral_trajectory lib mem l a1 a2 a3 a4 a5 a6 a7 a8 a9))) \<and>
        sint (snd (snd (calculate_spiral_trajectory lib mem l a1 a2 a3 a4 a5 a6 a7 a8 a9)))
          \<le> int (SWF_MAX_WAVEFORM_SIZE lib))"

section \<open>Concrete inputs\<close>

text \<open>
  The example scenario: base_resolution 256, spiral_arms 16, field_of_view 240.0,
  max_grad_ampl 24.0, min_rise_time 0.0002, dwell_time 4e-6, readout_os 1.0,
  gradient_delay 0.0, larmor_const 42577.0 (the floats as binary32 bit patterns).
\<close>

definition example_op :: SpiralWaveformOp where
  "example_op =
     \<lparr>base_resolution = 256, spiral_arms = 16, field_of_view = 0x43700000,
      max_grad_ampl = 0x41C00000, min_rise_time = 0x3951B717, dwell_time = 0x368637BD,
      readout_os = 1065353216, gradient_delay = 0, larmor_const = 0x47265100\<rparr>"

text \<open>Attribute values no caller should send: -1, 0, -240.0, -0.0, 0.5 and a NaN.\<close>

definition invalid_op :: SpiralWaveformOp where
  "invalid_op =
     \<lparr>base_resolution = - 1, spiral_arms = 0, field_of_view = 0xC3700000,
      max_grad_ampl = 0x80000000, min_rise_time = 0, dwell_time = 0,
      readout_os = 0x3F000000, gradient_delay = 0, larmor_const = 0x7FC00000\<rparr>"

text \<open>A construction context that knows the values of \<open>invalid_op\<close>.\<close>

definition invalid_attrs :: OpKernelConstruction where
  "invalid_attrs =
     \<lparr>GetAttr_int = (\<lambda>name.
         if name = ''base_resolution'' then Inr (- 1)
         else if name = ''spiral_arms'' then Inr 0
         else Inl (Error NOT_FOUND name)),
      GetAttr_float = (\<lambda>name.
         if name = ''field_of_view'' then Inr 0xC3700000
         else if name = ''max_grad_ampl'' then Inr 0x80000000
         else if name = ''min_rise_time'' then Inr 0
         else if name = ''dwell_time'' then Inr 0
         else if name = ''readout_os'' then Inr 0x3F000000
         else if name = ''gradient_delay'' then Inr 0
         else if name = ''larmor_const'' then Inr 0x7FC00000
         else Inl (Error NOT_FOUND name))\<rparr>"

text \<open>Memory that holds a NaN pattern everywhere, and memory that holds ones.\<close>

definition stale_memory :: buffer where
  "stale_memory = (\<lambda>i. 0x7FC00000)"

definition other_memory :: buffer where
  "other_memory = (\<lambda>i. 0x3F800000)"

definition out_of_memory :: error where
  "out_of_memory = Error RESOURCE_EXHAUSTED ''OOM when allocating temporary tensor''"

definition ok_context :: OpKernelContext where
  "ok_context = \<lparr>status = None, outputs = Map.empty, temp_allocator = (\<lambda>n. Inr stale_memory)\<rparr>"

definition other_context :: OpKernelContext where
  "other_context =
     \<lparr>status = None, outputs = Map.empty, temp_allocator = (\<lambda>n. Inr other_memory)\<rparr>"

definition oom_context :: OpKernelContext where
  "oom_context = \<lparr>status = None, outputs = Map.empty, temp_allocator = (\<lambda>n. Inl out_of_memory)\<rparr>"

text \<open>
  A library with capacity 4 whose routine returns \<open>result\<close>, stores \<open>len\<close>, and writes
  the ramp 0, 1, 2, ... over the rows it reports (never past the capacity).
\<close>

definition test_lib :: "c_int \<Rightarrow> c_long \<Rightarrow> spiral_waveform_h" where
  "test_lib result len =
     \<lparr>SWF_MAX_WAVEFORM_SIZE = 4,
      calculate_spiral_trajectory = (\<lambda>mem l a1 a2 a3 a4 a5 a6 a7 a8 a9.
        (result,
         (\<lambda>i. if i < 2 * nat (sint len) \<and> i < 8 then of_nat i else mem i),
         len))\<rparr>"

text \<open>
  A library with capacity 4 whose routine shows what it was called with: it returns 0
  only if the length it finds is 0, stores the length 4, and fills the buffer with the
  upper halves of its seven doubles, in order, and then the two integers packed into one
  word.
\<close>

definition probe_lib :: spiral_waveform_h where
  "probe_lib =
     \<lparr>SWF_MAX_WAVEFORM_SIZE = 4,
      calculate_spiral_trajectory = (\<lambda>mem l a1 a2 a3 a4 a5 a6 a7 a8 a9.
        (if l = 0 then 0 else 1,
         (\<lambda>i. if i < 8
              then ucast ([drop_bit 32 a3, drop_bit 32 a4, drop_bit 32 a5, drop_bit 32 a6,
                           drop_bit 32 a7, drop_bit 32 a8, drop_bit 32 a9,
                           a1 * 65536 + a2] ! i)
              else mem i),
         4))\<rparr>"

section \<open>Basic facts about the casts, tensors and \<open>Compute\<close>\<close>

lemma floor_log2_numerals:
  "floor_log2 1 = 0" "floor_log2 (Suc 0) = 0" "floor_log2 4194305 = 22"
  "floor_log2 8388607 = 22"
  by (simp_all add: floor_log2.simps)

text \<open>
  The cast at the edges of the format: 1.0, the smallest subnormal and its negative, two
  more subnormals, the smallest normal, the largest finite float, the infinities and a
  signalling NaN.
\<close>

lemma double_of_float_edge_cases:
  "double_of_float 0x3F800000 = 0x3FF0000000000000"
  "double_of_float 0x00000001 = 0x36A0000000000000"
  "double_of_float 0x80000001 = 0xB6A0000000000000"
  "double_of_float 0x00400001 = 0x3800000040000000"
  "double_of_float 0x007FFFFF = 0x380FFFFFC0000000"
  "double_of_float 0x00800000 = 0x3810000000000000"
  "double_of_float 0x7F7FFFFF = 0x47EFFFFFE0000000"
  "double_of_float 0x7F800000 = 0x7FF0000000000000"
  "double_of_float 0xFF800000 = 0xFFF0000000000000"
  "double_of_float 0x7F800001 = 0x7FF8000020000000"
  by (simp_all add: double_of_float_def floor_log2_numerals)

lemma fields_frac:
  fixes S E F :: "64 word"
  shows "take_bit 52 (push_bit 63 S OR (push_bit 52 E OR take_bit 52 F)) = take_bit 52 F"
  by (rule bit_word_eqI) (auto simp add: bit_simps)

lemma fields_exp:
  fixes S E F :: "64 word"
  shows "take_bit 11 (drop_bit 52 (push_bit 63 S OR (push_bit 52 (take_bit 11 E) OR take_bit 52 F)))
     = take_bit 11 E"
  by (rule bit_word_eqI) (auto simp add: bit_simps)

lemma fields_sign:
  fixes S E F :: "64 word"
  shows "bit (push_bit 63 S OR (push_bit 52 (take_bit 11 E) OR take_bit 52 F)) 63 = bit S 0"
  by (auto simp add: bit_simps)

lemma sign_bit: "bit (ucast (drop_bit 31 (x :: 32 word)) :: 64 word) 0 = bit x 31"
  by (simp add: bit_simps)

text \<open>A double put together from a sign, an exponent below 2048 and a fraction of 52 bits.\<close>

lemma double_value_assembled:
  fixes S F :: "64 word"
  assumes "E < 2048" "take_bit 52 F = F"
  shows "double_value (push_bit 63 S OR (push_bit 52 (of_nat E) OR F)) =
    (if E = 2047 then (if F = 0 then Infinity (bit S 0) else NaN)
     else Finite (bit S 0) (if E = 0 then unat F else (2 ^ 52 + unat F) * 2 ^ (E - 1)))"
proof -
  have uE: "unat (of_nat E :: 64 word) = E"
    using assms(1) by (simp add: unat_of_nat)
  have "unat (take_bit 11 (of_nat E :: 64 word)) = unat (of_nat E :: 64 word)"
    using assms(1) by (simp add: unsigned_take_bit_eq uE take_bit_nat_eq_self)
  then have E: "take_bit 11 (of_nat E :: 64 word) = of_nat E"
    by (rule unsigned_word_eqI)
  let ?y = "push_bit 63 S OR (push_bit 52 (of_nat E) OR F) :: 64 word"
  have 1: "take_bit 52 ?y = F"
    using fields_frac[of S "of_nat E" F] by (simp add: assms(2))
  have 2: "take_bit 11 (drop_bit 52 ?y) = of_nat E"
    using fields_exp[of S "of_nat E" F] by (simp add: E assms(2))
  have 3: "bit ?y 63 = bit S 0"
    using fields_sign[of S "of_nat E" F] by (simp add: E assms(2))
  show ?thesis
    unfolding double_value_def 1 2 3 uE Let_def by (simp add: unsigned_eq_0_iff)
qed

lemma floor_log2_bounds: "0 < n \<Longrightarrow> 2 ^ floor_log2 n \<le> n \<and> n < 2 ^ Suc (floor_log2 n)"
proof (induction n rule: floor_log2.induct)
  case (1 n)
  show ?case
  proof (cases "n < 2")
    case True
    with 1(2) show ?thesis by (simp add: floor_log2.simps[of n])
  next
    case False
    then have "0 < n div 2" by simp
    with 1(1)[OF False] have "2 ^ floor_log2 (n div 2) \<le> n div 2"
      "n div 2 < 2 ^ Suc (floor_log2 (n div 2))" by simp_all
    with False show ?thesis
      by (simp add: floor_log2.simps[of n]) linarith
  qed
qed

lemma fraction_bound: "unat (take_bit 23 (x :: 32 word)) < 2 ^ 23"
  using take_bit_nat_less_exp[of 23 "unat x"]
  by (simp add: unsigned_take_bit_eq)

lemma exponent_bound: "unat (take_bit 8 (drop_bit 23 (x :: 32 word))) < 256"
  using take_bit_nat_less_exp[of 8 "unat (drop_bit 23 x)"]
  by (simp add: unsigned_take_bit_eq)

lemma unat_widened_fraction:
  "unat (ucast (take_bit 23 (x :: 32 word)) :: 64 word) = unat (take_bit 23 x)"
  using fraction_bound[of x]
  by (simp add: unsigned_ucast_eq take_bit_nat_eq_self)

lemma widened_fraction_fits:
  "take_bit 52 (push_bit 29 (ucast (take_bit 23 (x :: 32 word)) :: 64 word)) =
   push_bit 29 (ucast (take_bit 23 x))"
  by (rule bit_word_eqI) (auto simp add: bit_simps)

lemma unat_shifted_fraction:
  "unat (push_bit 29 (ucast (take_bit 23 (x :: 32 word)) :: 64 word)) =
   unat (take_bit 23 x) * 2 ^ 29"
proof -
  have "unat (take_bit 23 x) * 2 ^ 29 < 2 ^ 23 * 2 ^ 29"
    using fraction_bound[of x] by simp
  then have "unat (take_bit 23 x) * 2 ^ 29 < 2 ^ 64"
    by simp
  then have "take_bit 64 (unat (take_bit 23 x) * 2 ^ 29) = unat (take_bit 23 x) * 2 ^ 29"
    by (rule take_bit_nat_eq_self)
  moreover have "unat (push_bit 29 (ucast (take_bit 23 x) :: 64 word)) =
      take_bit 64 (push_bit 29 (unat (ucast (take_bit 23 x) :: 64 word)))"
    by (simp only: unsigned_push_bit_eq) simp
  ultimately show ?thesis
    by (simp only: unat_widened_fraction push_bit_eq_mult)
qed

lemma double_of_float_normal:
  fixes x :: float32
  defines "e \<equiv> unat (take_bit 8 (drop_bit 23 x))"
  assumes "e \<noteq> 0" "e \<noteq> 255"
  shows "double_value (double_of_float x) = float_value x"
proof -
  let ?f = "unat (take_bit 23 x)"
  let ?F = "push_bit 29 (ucast (take_bit 23 x)) :: 64 word"
  have e: "e < 256"
    unfolding e_def by (rule exponent_bound)
  with assms(3) have E: "e + 896 < 2048" "e + 896 \<noteq> 2047" by simp_all
  have d: "double_of_float x =
      push_bit 63 (ucast (drop_bit 31 x)) OR (push_bit 52 (of_nat (e + 896)) OR ?F)"
    using assms(2,3) by (simp add: double_of_float_def Let_def e_def)
  have p: "(2 :: nat) ^ (e + 924) = 2 ^ 29 * 2 ^ (e + 895)"
    by (simp only: power_add[symmetric]) simp
  have q: "(2 :: nat) ^ 52 = 2 ^ 23 * 2 ^ 29"
    by (simp only: power_add[symmetric]) simp
  have "(2 ^ 52 + ?f * 2 ^ 29) * 2 ^ (e + 895) = (2 ^ 23 + ?f) * 2 ^ (e + 924)"
    unfolding p q by (simp only: distrib_right mult.assoc)
  moreover have "e + 896 - 1 = e + 895"
    by simp
  ultimately have m: "(2 ^ 52 + unat ?F) * 2 ^ (e + 896 - 1) = (2 ^ 23 + ?f) * 2 ^ (e + 924)"
    by (simp only: unat_shifted_fraction)
  have "double_value (double_of_float x) =
        Finite (bit x 31) ((2 ^ 52 + unat ?F) * 2 ^ (e + 896 - 1))"
    unfolding d using E
    by (simp only: double_value_assembled[OF E(1) widened_fraction_fits] sign_bit) simp
  also have "\<dots> = float_value x"
    unfolding m using assms(2,3) by (simp add: float_value_def Let_def e_def)
  finally show ?thesis .
qed

lemma double_of_float_special:
  fixes x :: float32
  assumes "unat (take_bit 8 (drop_bit 23 x)) = 255"
  shows "double_value (double_of_float x) = float_value x"
proof -
  let ?q = "(if take_bit 23 x = 0 then 0 else push_bit 51 1) :: 64 word"
  let ?F = "push_bit 29 (ucast (take_bit 23 x)) OR ?q :: 64 word"
  have d: "double_of_float x =
      push_bit 63 (ucast (drop_bit 31 x)) OR (push_bit 52 (of_nat 2047) OR ?F)"
    using assms by (simp add: double_of_float_def Let_def)
  have fits: "take_bit 52 ?F = ?F"
    by (simp add: widened_fraction_fits)
  have zero: "(?F = 0) = (unat (take_bit 23 x) = 0)"
  proof (cases "take_bit 23 x = 0")
    case True
    then show ?thesis by simp
  next
    case False
    then have "bit ?F 51" by (simp add: bit_simps)
    then have "?F \<noteq> 0" by auto
    with False show ?thesis by (simp add: unsigned_eq_0_iff)
  qed
  have top: "(2047 :: nat) < 2048"
    by simp
  have "double_value (double_of_float x) =
        (if ?F = 0 then Infinity (bit x 31) else NaN)"
    unfolding d
    by (simp only: double_value_assembled[OF top fits] sign_bit) simp
  also have "\<dots> = float_value x"
    unfolding zero using assms by (simp add: float_value_def Let_def)
  finally show ?thesis .
qed

lemma double_of_float_zero:
  fixes x :: float32
  assumes "unat (take_bit 8 (drop_bit 23 x)) = 0" "take_bit 23 x = 0"
  shows "double_value (double_of_float x) = float_value x"
proof -
  have d: "double_of_float x =
      push_bit 63 (ucast (drop_bit 31 x)) OR (push_bit 52 (of_nat 0) OR 0)"
    using assms by (simp add: double_of_float_def Let_def)
  have a: "(0 :: nat) < 2048" and b: "take_bit 52 (0 :: 64 word) = 0"
    by simp_all
  have "double_value (double_of_float x) = Finite (bit x 31) 0"
    unfolding d
    by (simp only: double_value_assembled[OF a b] sign_bit) simp
  also have "\<dots> = float_value x"
    using assms by (simp add: float_value_def Let_def)
  finally show ?thesis .
qed

lemma double_of_float_subnormal:
  fixes x :: float32
  assumes "unat (take_bit 8 (drop_bit 23 x)) = 0" "take_bit 23 x \<noteq> 0"
  shows "double_value (double_of_float x) = float_value x"
proof -
  let ?f = "unat (take_bit 23 x)"
  define k where "k = floor_log2 ?f"
  let ?F = "take_bit 52 (push_bit (52 - k) (ucast (take_bit 23 x))) :: 64 word"
  have "?f \<noteq> 0"
    using assms(2) by (simp add: unsigned_eq_0_iff)
  then have pos: "0 < ?f"
    by simp
  from floor_log2_bounds[OF pos] have lo: "2 ^ k \<le> ?f" and hi: "?f < 2 ^ Suc k"
    by (simp_all add: k_def)
  have k: "k < 23"
  proof (rule ccontr)
    assume "\<not> k < 23"
    then have "23 \<le> k" by simp
    then have "(2 :: nat) ^ 23 \<le> 2 ^ k" by (rule power_increasing) simp
    with lo fraction_bound[of x] show False by simp
  qed
  then have E: "k + 874 < 2048" "k + 874 \<noteq> 2047" "k + 874 \<noteq> 0" by simp_all
  have d: "double_of_float x =
      push_bit 63 (ucast (drop_bit 31 x)) OR (push_bit 52 (of_nat (k + 874)) OR ?F)"
    using assms by (simp add: double_of_float_def Let_def k_def)
  have fits: "take_bit 52 ?F = ?F"
    by simp
  have split: "(2 :: nat) ^ 52 = 2 ^ k * 2 ^ (52 - k)"
    using k by (simp only: power_add[symmetric]) simp
  have ge: "2 ^ 52 \<le> ?f * 2 ^ (52 - k)"
    unfolding split using lo by (rule mult_le_mono1)
  have "?f * 2 ^ (52 - k) < 2 ^ Suc k * 2 ^ (52 - k)"
    using hi by simp
  also have "\<dots> = 2 * 2 ^ 52"
    unfolding split by simp
  finally have lt: "?f * 2 ^ (52 - k) < 2 * 2 ^ 52" .
  then have lt64: "?f * 2 ^ (52 - k) < 2 ^ 64" by simp
  have "unat (push_bit (52 - k) (ucast (take_bit 23 x) :: 64 word)) =
      take_bit 64 (push_bit (52 - k) (unat (ucast (take_bit 23 x) :: 64 word)))"
    by (simp only: unsigned_push_bit_eq) simp
  also have "\<dots> = take_bit 64 (?f * 2 ^ (52 - k))"
    by (simp only: unat_widened_fraction push_bit_eq_mult)
  also have "\<dots> = ?f * 2 ^ (52 - k)"
    using lt64 by (rule take_bit_nat_eq_self)
  finally have "unat ?F = take_bit 52 (?f * 2 ^ (52 - k))"
    by (simp only: unsigned_take_bit_eq)
  also have "\<dots> = (?f * 2 ^ (52 - k)) mod 2 ^ 52"
    by (rule take_bit_eq_mod)
  also have "\<dots> = ?f * 2 ^ (52 - k) - 2 ^ 52"
    using ge lt by (simp add: mod_if le_mod_geq)
  finally have uF: "2 ^ 52 + unat ?F = ?f * 2 ^ (52 - k)"
    using ge by simp
  have "(52 - k) + (k + 874 - 1) = 925"
    using k by simp
  then have "(2 :: nat) ^ (52 - k) * 2 ^ (k + 874 - 1) = 2 ^ 925"
    by (simp only: power_add[symmetric])
  then have m: "(2 ^ 52 + unat ?F) * 2 ^ (k + 874 - 1) = ?f * 2 ^ 925"
    by (simp only: uF mult.assoc)
  have "double_value (double_of_float x) =
        Finite (bit x 31) ((2 ^ 52 + unat ?F) * 2 ^ (k + 874 - 1))"
    unfolding d using E
    by (simp only: double_value_assembled[OF E(1) fits] sign_bit) simp
  also have "\<dots> = float_value x"
    unfolding m using assms by (simp add: float_value_def Let_def)
  finally show ?thesis .
qed

text \<open>The cast from \<open>float\<close> to \<open>double\<close> keeps the value, whatever the float.\<close>

lemma double_of_float_exact: "double_value (double_of_float x) = float_value x"
proof (cases "unat (take_bit 8 (drop_bit 23 x)) = 255")
  case True
  then show ?thesis by (rule double_of_float_special)
next
  case False
  show ?thesis
  proof (cases "unat (take_bit 8 (drop_bit 23 x)) = 0")
    case nz: False
    from nz False show ?thesis by (rule double_of_float_normal)
  next
    case True
    then show ?thesis
      by (cases "take_bit 23 x = 0") (simp_all add: double_of_float_zero double_of_float_subnormal)
  qed
qed

lemma sint_long_of_int: "sint (long_of_int x) = sint x"
  by (simp add: long_of_int_def sint_up_scast is_up)

lemma num_elements_temp: "num_elements [int n, 2] = 2 * n"
  by (simp add: num_elements_def)

lemma num_elements_rows: "num_elements [L, 2] = 2 * nat L"
  by (cases "0 \<le> L") (simp_all add: num_elements_def nat_mult_distrib mult.commute)

lemma samples_length: "shape w = [L, 2] \<Longrightarrow> length (samples w) = nat L"
  by (simp add: samples_def)




lemma CtxFailure_simps [simp]:
  "outputs (CtxFailure ctx s) = outputs ctx"
  "temp_allocator (CtxFailure ctx s) = temp_allocator ctx"
  "status (CtxFailure ctx s) = Some (case status ctx of None \<Rightarrow> s | Some s0 \<Rightarrow> s0)"
  "status ctx = None \<Longrightarrow> CtxFailure ctx s = ctx\<lparr>status := Some s\<rparr>"
  by (simp_all add: CtxFailure_def split: option.splits)

lemma allocate_temp_Inr:
  "temp_allocator ctx (temp_size lib) = Inr mem \<Longrightarrow>
   allocate_temp ctx DT_FLOAT [int (SWF_MAX_WAVEFORM_SIZE lib), 2] =
     Inr \<lparr>dtype = DT_FLOAT, shape = [int (SWF_MAX_WAVEFORM_SIZE lib), 2], buf = mem\<rparr>"
  by (simp add: allocate_temp_def num_elements_temp temp_size_def)

lemma allocate_temp_Inl:
  "temp_allocator ctx (temp_size lib) = Inl e \<Longrightarrow>
   allocate_temp ctx DT_FLOAT [int (SWF_MAX_WAVEFORM_SIZE lib), 2] = Inl e"
  by (simp add: allocate_temp_def num_elements_temp temp_size_def)

lemma Slice_filled_temp:
  "Slice (filled_temp lib written) 0 L =
     (if 0 \<le> L \<and> L \<le> int (SWF_MAX_WAVEFORM_SIZE lib)
      then Some \<lparr>dtype = DT_FLOAT, shape = [L, 2], buf = written\<rparr> else None)"
  by (simp add: Slice_def filled_temp_def)

text \<open>The run when the allocator refuses: one request, the error in the context.\<close>

lemma Compute_alloc_failed:
  assumes "temp_allocator ctx (temp_size lib) = Inl e"
  shows "Compute lib self ctx =
    \<lparr>trace = [AllocateTemp DT_FLOAT [int (SWF_MAX_WAVEFORM_SIZE lib), 2]],
     kernel_object = self, outcome = Some (CtxFailure ctx e)\<rparr>"
  by (simp add: Compute_def allocate_temp_Inl[OF assms])

text \<open>The run when the allocator answers with memory: the three ways it can end.\<close>

lemma Compute_allocated:
  assumes "temp_allocator ctx (temp_size lib) = Inr mem"
      and "generator_result lib self mem = (result, written, len)"
  shows "Compute lib self ctx =
    \<lparr>trace = [AllocateTemp DT_FLOAT [int (SWF_MAX_WAVEFORM_SIZE lib), 2],
              CalculateSpiralTrajectory mem 0
                (long_of_int (base_resolution self)) (long_of_int (spiral_arms self))
                (double_of_float (field_of_view self)) (double_of_float (max_grad_ampl self))
                (double_of_float (min_rise_time self)) (double_of_float (dwell_time self))
                (double_of_float (readout_os self)) (double_of_float (gradient_delay self))
                (double_of_float (larmor_const self))],
     kernel_object = self,
     outcome =
       (if result \<noteq> 0 then
          Some (CtxFailure ctx (Internal ''failed during `calculate_spiral_trajectory`''))
        else if 0 \<le> sint len \<and> sint len \<le> int (SWF_MAX_WAVEFORM_SIZE lib) then
          Some (ctx\<lparr>outputs := (outputs ctx)(0 \<mapsto>
                  \<lparr>dtype = DT_FLOAT, shape = [sint len, 2], buf = written\<rparr>)\<rparr>)
        else None)\<rparr>"
  using assms(2)
  by (simp add: Compute_def allocate_temp_Inr[OF assms(1)] generator_result_def
      set_output_def Slice_def Let_def)

text \<open>A waveform reaches the caller in one way only.\<close>

lemma returned_waveform_cases:
  assumes "returned_waveform (Compute lib self ctx) = Some w"
  obtains mem written len where
    "temp_allocator ctx (temp_size lib) = Inr mem"
    "generator_result lib self mem = (0, written, len)"
    "0 \<le> sint len" "sint len \<le> int (SWF_MAX_WAVEFORM_SIZE lib)"
    "w = \<lparr>dtype = DT_FLOAT, shape = [sint len, 2], buf = written\<rparr>"
    "status ctx = None"
proof (cases "temp_allocator ctx (temp_size lib)")
  case (Inl e)
  with assms show ?thesis
    by (simp add: Compute_alloc_failed[OF Inl] returned_waveform_def)
next
  case (Inr mem)
  obtain result written len where g: "generator_result lib self mem = (result, written, len)"
    by (cases "generator_result lib self mem") auto
  from assms show ?thesis
    using that[OF Inr, of written len] g
    by (auto simp add: Compute_allocated[OF Inr g] returned_waveform_def
        split: if_splits option.splits)
qed

text \<open>The concrete inputs, evaluated.\<close>

lemma test_lib_result:
  "generator_result (test_lib r n) self mem =
     (r, (\<lambda>i. if i < 2 * nat (sint n) \<and> i < 8 then of_nat i else mem i), n)"
  by (simp add: generator_result_def test_lib_def)

lemma test_lib_size: "temp_size (test_lib r n) = 8" "SWF_MAX_WAVEFORM_SIZE (test_lib r n) = 4"
  by (simp_all add: temp_size_def test_lib_def)

lemma ok_alloc: "temp_allocator ok_context n = Inr stale_memory" "status ok_context = None"
  by (simp_all add: ok_context_def)

lemma other_alloc:
  "temp_allocator other_context n = Inr other_memory" "status other_context = None"
  by (simp_all add: other_context_def)

lemma oom_alloc: "temp_allocator oom_context n = Inl out_of_memory" "status oom_context = None"
  by (simp_all add: oom_context_def)

lemma probe_lib_size: "temp_size probe_lib = 8" "SWF_MAX_WAVEFORM_SIZE probe_lib = 4"
  by (simp_all add: temp_size_def probe_lib_def)

lemma probe_lib_example:
  "fst (calculate_spiral_trajectory probe_lib mem 0 256 16
     0x406E000000000000 0x4038000000000000 0x3F2A36E2E0000000 0x3ED0C6F7A0000000
     0x3FF0000000000000 0 0x40E4CA2000000000) = 0"
  "snd (snd (calculate_spiral_trajectory probe_lib mem 0 256 16
     0x406E000000000000 0x4038000000000000 0x3F2A36E2E0000000 0x3ED0C6F7A0000000
     0x3FF0000000000000 0 0x40E4CA2000000000)) = 4"
  "map (fst (snd (calculate_spiral_trajectory probe_lib mem 0 256 16
     0x406E000000000000 0x4038000000000000 0x3F2A36E2E0000000 0x3ED0C6F7A0000000
     0x3FF0000000000000 0 0x40E4CA2000000000))) [0..<8] =
   [0x406E0000, 0x40380000, 0x3F2A36E2, 0x3ED0C6F7, 0x3FF00000, 0, 0x40E4CA20, 0x1000010]"
  by (simp_all add: probe_lib_def upt_rec)

lemma probe_lib_invalid:
  "fst (calculate_spiral_trajectory probe_lib mem 0 (- 1) 0
     0xC06E000000000000 0x8000000000000000 0 0 0x3FE0000000000000 0
     0x7FF8000000000000) = 0"
  "snd (snd (calculate_spiral_trajectory probe_lib mem 0 (- 1) 0
     0xC06E000000000000 0x8000000000000000 0 0 0x3FE0000000000000 0
     0x7FF8000000000000)) = 4"
  "map (fst (snd (calculate_spiral_trajectory probe_lib mem 0 (- 1) 0
     0xC06E000000000000 0x8000000000000000 0 0 0x3FE0000000000000 0
     0x7FF8000000000000))) [0..<8] =
   [0xC06E0000, 0x80000000, 0, 0, 0x3FE00000, 0, 0x7FF80000, 0xFFFF0000]"
  by (simp_all add: probe_lib_def upt_rec)

section \<open>The claims\<close>

text \<open>
  Claim C1, as amended. On a context whose status is OK and whose allocator hands out the
  temporary, the operation reports an error if and only if the routine returns a nonzero
  result, and the error is then the Internal error of the kernel; when the routine
  returns 0 and the length it stored lies between 0 and \<open>SWF_MAX_WAVEFORM_SIZE\<close>, the
  operation ends with status OK and returns the waveform of that many rows.
\<close>

theorem Compute_error_iff_nonzero_result:
  assumes "status ctx = None"
      and "temp_allocator ctx (temp_size lib) = Inr mem"
      and "generator_result lib self mem = (result, written, len)"
  shows "(reported_error (Compute lib self ctx) \<noteq> None) = (result \<noteq> 0) \<and>
         (result \<noteq> 0 \<longrightarrow> reported_error (Compute lib self ctx) =
            Some (Internal ''failed during `calculate_spiral_trajectory`'')) \<and>
         (result = 0 \<and> 0 \<le> sint len \<and> sint len \<le> int (SWF_MAX_WAVEFORM_SIZE lib) \<longrightarrow>
            reported_error (Compute lib self ctx) = None \<and>
            returned_waveform (Compute lib self ctx) =
              Some \<lparr>dtype = DT_FLOAT, shape = [sint len, 2], buf = written\<rparr>)"
  using assms(1)
  by (simp add: Compute_allocated[OF assms(2,3)] reported_error_def returned_waveform_def)

theorem Compute_error_iff_nonzero_result_witness:
  "status ok_context = None \<and>
   temp_allocator ok_context (temp_size (test_lib 1 0)) = Inr stale_memory \<and>
   fst (generator_result (test_lib 1 0) example_op stale_memory) = 1 \<and>
   reported_error (Compute (test_lib 1 0) example_op ok_context) =
     Some (Internal ''failed during `calculate_spiral_trajectory`'') \<and>
   temp_allocator ok_context (temp_size (test_lib 0 3)) = Inr stale_memory \<and>
   fst (generator_result (test_lib 0 3) example_op stale_memory) = 0 \<and>
   sint (snd (snd (generator_result (test_lib 0 3) example_op stale_memory))) = 3 \<and>
   reported_error (Compute (test_lib 0 3) example_op ok_context) = None \<and>
   map_option shape (returned_waveform (Compute (test_lib 0 3) example_op ok_context)) =
     Some [3, 2] \<and>
   map_option flat (returned_waveform (Compute (test_lib 0 3) example_op ok_context)) =
     Some [0, 1, 2, 3, 4, 5]"
  using Compute_error_iff_nonzero_result[where lib = "test_lib 1 0" and self = example_op,
          OF ok_alloc(2) ok_alloc(1) test_lib_result]
        Compute_error_iff_nonzero_result[where lib = "test_lib 0 3" and self = example_op,
          OF ok_alloc(2) ok_alloc(1) test_lib_result]
  by (simp add: test_lib_size test_lib_result ok_alloc flat_def num_elements_rows upt_rec)

text \<open>
  The claim as stated fails in both directions. The routine returns 0 and stores the
  length 5 with a capacity of 4: the operation does not succeed, no waveform is returned
  (the bounds check of the slice stops the run). And with an allocator that refuses, the
  operation reports an error although the routine was never called.
\<close>

theorem success_on_zero_result_counterexample:
  "fst (generator_result (test_lib 0 5) example_op stale_memory) = 0 \<and>
   returned_waveform (Compute (test_lib 0 5) example_op ok_context) = None \<and>
   reported_error (Compute (test_lib 0 5) example_op ok_context) = None \<and>
   aborted (Compute (test_lib 0 5) example_op ok_context) \<and>
   reported_error (Compute (test_lib 0 3) example_op oom_context) = Some out_of_memory \<and>
   filter is_call (trace (Compute (test_lib 0 3) example_op oom_context)) = []"
  by (simp add: Compute_allocated[OF ok_alloc(1) test_lib_result]
      Compute_alloc_failed[OF oom_alloc(1)] test_lib_result test_lib_size
      reported_error_def returned_waveform_def aborted_def oom_alloc)

lemma valid_arguments_of_parameters:
  "valid_parameters self \<Longrightarrow>
   valid_arguments (long_of_int (base_resolution self)) (long_of_int (spiral_arms self))
     (double_of_float (field_of_view self)) (double_of_float (max_grad_ampl self))
     (double_of_float (min_rise_time self)) (double_of_float (dwell_time self))
     (double_of_float (readout_os self)) (double_of_float (gradient_delay self))
     (double_of_float (larmor_const self))"
  by (simp add: valid_parameters_def valid_arguments_def sint_long_of_int
      double_of_float_exact)

lemma generator_guaranteeD:
  assumes "generator_guarantee lib" and "valid_parameters self"
      and "generator_result lib self mem = (0, written, len)"
  shows "1 \<le> sint len" "sint len \<le> int (SWF_MAX_WAVEFORM_SIZE lib)"
  using assms(1)[unfolded generator_guarantee_def, rule_format,
      OF valid_arguments_of_parameters[OF assms(2)], of mem 0,
      folded generator_result_def] assms(3)
  by simp_all

lemma valid_example_op: "valid_parameters example_op"
  by (simp add: valid_parameters_def example_op_def float_value_def)

lemma test_lib_guarantee: "generator_guarantee (test_lib r 3)"
  by (simp add: generator_guarantee_def test_lib_def)

text \<open>
  Claim C2. Under the guarantee of the generator, for all valid acquisition parameters on
  which the operation succeeds the returned waveform has L rows, L being the length the
  routine stored, with 1 \<le> L \<le> \<open>SWF_MAX_WAVEFORM_SIZE\<close>; in particular it is not
  empty. \<open>Compute\<close> hands the routine the parameters with their values unchanged, so
  valid parameters are valid arguments, and it slices the temporary to exactly the
  stored length.
\<close>

theorem valid_success_length_bounds:
  assumes "generator_guarantee lib"
      and "valid_parameters self"
      and "returned_waveform (Compute lib self ctx) = Some w"
  shows "\<exists>L. shape w = [L, 2] \<and> 1 \<le> L \<and> L \<le> int (SWF_MAX_WAVEFORM_SIZE lib) \<and>
             length (samples w) = nat L \<and>
             1 \<le> length (samples w) \<and> length (samples w) \<le> SWF_MAX_WAVEFORM_SIZE lib \<and>
             samples w \<noteq> [] \<and> flat w \<noteq> [] \<and>
             (\<exists>mem. temp_allocator ctx (temp_size lib) = Inr mem \<and>
                    L = sint (snd (snd (generator_result lib self mem))))"
  using assms(3)
proof (rule returned_waveform_cases)
  fix mem written len
  assume a: "temp_allocator ctx (temp_size lib) = Inr mem"
    "generator_result lib self mem = (0, written, len)"
    "w = \<lparr>dtype = DT_FLOAT, shape = [sint len, 2], buf = written\<rparr>"
  from generator_guaranteeD[OF assms(1,2) a(2)]
  have b: "1 \<le> sint len" "sint len \<le> int (SWF_MAX_WAVEFORM_SIZE lib)" .
  then have n: "1 \<le> nat (sint len)" "nat (sint len) \<le> SWF_MAX_WAVEFORM_SIZE lib"
    by simp_all
  have l: "length (samples w) = nat (sint len)" "length (flat w) = 2 * nat (sint len)"
    by (simp_all add: a(3) samples_def flat_def num_elements_rows)
  from n l have ne: "samples w \<noteq> []" "flat w \<noteq> []"
    by auto
  show ?thesis
  proof (intro exI[of _ "sint len"] conjI)
    show "shape w = [sint len, 2]" by (simp add: a(3))
    show "\<exists>mem. temp_allocator ctx (temp_size lib) = Inr mem \<and>
                    sint len = sint (snd (snd (generator_result lib self mem)))"
      using a(1,2) by auto
  qed (use b n l ne in simp_all)
qed

theorem valid_success_length_bounds_witness:
  "generator_guarantee (test_lib 0 3) \<and>
   valid_parameters example_op \<and>
   map_option shape (returned_waveform (Compute (test_lib 0 3) example_op ok_context)) =
     Some [3, 2] \<and>
   map_option samples (returned_waveform (Compute (test_lib 0 3) example_op ok_context)) =
     Some [(0, 1), (2, 3), (4, 5)] \<and>
   (1 :: int) \<le> 3 \<and> (3 :: int) \<le> int (SWF_MAX_WAVEFORM_SIZE (test_lib 0 3))"
proof -
  let ?wr = "(\<lambda>i. if i < 6 \<and> i < 8 then of_nat i else stale_memory i) :: buffer"
  let ?w = "\<lparr>dtype = DT_FLOAT, shape = [3, 2], buf = ?wr\<rparr>"
  have r: "returned_waveform (Compute (test_lib 0 3) example_op ok_context) = Some ?w"
    by (simp add: Compute_allocated[OF ok_alloc(1) test_lib_result] test_lib_size
        returned_waveform_def ok_alloc)
  have s: "samples ?w = [(0, 1), (2, 3), (4, 5)]"
    by (simp add: samples_def upt_rec)
  from valid_success_length_bounds[OF test_lib_guarantee valid_example_op r]
  show ?thesis
    by (simp add: r s test_lib_guarantee valid_example_op test_lib_size)
qed

text \<open>
  Claim C3. When the routine returns a nonzero result, \<open>Compute\<close> leaves the kernel
  as it was, writes no output slot and ends with an error status, so the caller receives
  no waveform; on a context that came with status OK nothing changes but the status, which
  becomes the Internal error.
\<close>

theorem no_output_on_failure:
  assumes "temp_allocator ctx (temp_size lib) = Inr mem"
      and "generator_result lib self mem = (result, written, len)"
      and "result \<noteq> 0"
  shows "kernel_object (Compute lib self ctx) = self \<and>
         returned_waveform (Compute lib self ctx) = None \<and>
         (\<exists>ctx'. outcome (Compute lib self ctx) = Some ctx' \<and>
                 outputs ctx' = outputs ctx \<and> status ctx' \<noteq> None \<and>
                 (status ctx = None \<longrightarrow>
                    ctx' = ctx\<lparr>status :=
                      Some (Internal ''failed during `calculate_spiral_trajectory`'')\<rparr>))"
  using assms(3)
  by (simp add: Compute_allocated[OF assms(1,2)] returned_waveform_def)

theorem no_output_on_failure_witness:
  "status ok_context = None \<and>
   temp_allocator ok_context (temp_size (test_lib 1 3)) = Inr stale_memory \<and>
   fst (generator_result (test_lib 1 3) example_op stale_memory) = 1 \<and>
   (1 :: c_int) \<noteq> 0 \<and>
   outcome (Compute (test_lib 1 3) example_op ok_context) =
     Some (ok_context\<lparr>status :=
        Some (Internal ''failed during `calculate_spiral_trajectory`'')\<rparr>) \<and>
   kernel_object (Compute (test_lib 1 3) example_op ok_context) = example_op \<and>
   returned_waveform (Compute (test_lib 1 3) example_op ok_context) = None \<and>
   outputs (the (outcome (Compute (test_lib 1 3) example_op ok_context))) = Map.empty"
  using no_output_on_failure[where lib = "test_lib 1 3" and self = example_op,
          OF ok_alloc(1) test_lib_result]
  by (simp add: ok_alloc test_lib_result ok_context_def)

lemma trace_starts_with_allocation:
  "take 1 (trace (Compute lib self ctx)) =
     [AllocateTemp DT_FLOAT [int (SWF_MAX_WAVEFORM_SIZE lib), 2]]"
proof (cases "temp_allocator ctx (temp_size lib)")
  case (Inl e)
  then show ?thesis by (simp add: Compute_alloc_failed[OF Inl])
next
  case (Inr mem)
  obtain result written len where g: "generator_result lib self mem = (result, written, len)"
    by (cases "generator_result lib self mem") auto
  show ?thesis by (simp add: Compute_allocated[OF Inr g])
qed





lemma example_casts:
  "long_of_int (base_resolution example_op) = 256"
  "long_of_int (spiral_arms example_op) = 16"
  "double_of_float (field_of_view example_op) = 0x406E000000000000"
  "double_of_float (max_grad_ampl example_op) = 0x4038000000000000"
  "double_of_float (min_rise_time example_op) = 0x3F2A36E2E0000000"
  "double_of_float (dwell_time example_op) = 0x3ED0C6F7A0000000"
  "double_of_float (readout_os example_op) = 0x3FF0000000000000"
  "double_of_float (gradient_delay example_op) = 0"
  "double_of_float (larmor_const example_op) = 0x40E4CA2000000000"
  by (simp_all add: example_op_def long_of_int_def double_of_float_def)

text \<open>
  Claim C6, as amended. For every request whose temporary buffer is allocated, the
  operation calls the routine exactly once, on that buffer and a length of 0, with the
  nine parameters in the order base_resolution, spiral_arms, field_of_view,
  max_grad_ampl, min_rise_time, dwell_time, readout_os, gradient_delay, larmor_const: the
  first two as \<open>long\<close> integers of the same value, the other seven converted from
  \<open>float\<close> to \<open>double\<close>, each standing for the same number as before. What the
  routine answers to that one call decides how the run ends, and nothing else about the
  routine does: a library that answers that call alike gives the same run.
\<close>

theorem generator_called_once:
  assumes "temp_allocator ctx (temp_size lib) = Inr mem"
      and "calculate_spiral_trajectory lib mem 0
             (long_of_int (base_resolution self)) (long_of_int (spiral_arms self))
             (double_of_float (field_of_view self)) (double_of_float (max_grad_ampl self))
             (double_of_float (min_rise_time self)) (double_of_float (dwell_time self))
             (double_of_float (readout_os self)) (double_of_float (gradient_delay self))
             (double_of_float (larmor_const self)) = (result, written, len)"
  shows "filter is_call (trace (Compute lib self ctx)) =
           [CalculateSpiralTrajectory mem 0
              (long_of_int (base_resolution self)) (long_of_int (spiral_arms self))
              (double_of_float (field_of_view self)) (double_of_float (max_grad_ampl self))
              (double_of_float (min_rise_time self)) (double_of_float (dwell_time self))
              (double_of_float (readout_os self)) (double_of_float (gradient_delay self))
              (double_of_float (larmor_const self))] \<and>
         length (filter is_call (trace (Compute lib self ctx))) = 1 \<and>
         outcome (Compute lib self ctx) =
           (if result \<noteq> 0 then
              Some (CtxFailure ctx (Internal ''failed during `calculate_spiral_trajectory`''))
            else if 0 \<le> sint len \<and> sint len \<le> int (SWF_MAX_WAVEFORM_SIZE lib) then
              Some (set_output ctx 0 \<lparr>dtype = DT_FLOAT, shape = [sint len, 2], buf = written\<rparr>)
            else None) \<and>
         (SWF_MAX_WAVEFORM_SIZE lib' = SWF_MAX_WAVEFORM_SIZE lib \<and>
          calculate_spiral_trajectory lib' mem 0
             (long_of_int (base_resolution self)) (long_of_int (spiral_arms self))
             (double_of_float (field_of_view self)) (double_of_float (max_grad_ampl self))
             (double_of_float (min_rise_time self)) (double_of_float (dwell_time self))
             (double_of_float (readout_os self)) (double_of_float (gradient_delay self))
             (double_of_float (larmor_const self)) = (result, written, len) \<longrightarrow>
          Compute lib' self ctx = Compute lib self ctx) \<and>
         sint (long_of_int (base_resolution self)) = sint (base_resolution self) \<and>
         sint (long_of_int (spiral_arms self)) = sint (spiral_arms self) \<and>
         double_value (double_of_float (field_of_view self)) =
           float_value (field_of_view self) \<and>
         double_value (double_of_float (max_grad_ampl self)) =
           float_value (max_grad_ampl self) \<and>
         double_value (double_of_float (min_rise_time self)) =
           float_value (min_rise_time self) \<and>
         double_value (double_of_float (dwell_time self)) = float_value (dwell_time self) \<and>
         double_value (double_of_float (readout_os self)) = float_value (readout_os self) \<and>
         double_value (double_of_float (gradient_delay self)) =
           float_value (gradient_delay self) \<and>
         double_value (double_of_float (larmor_const self)) =
           float_value (larmor_const self)"
proof -
  have g: "generator_result lib self mem = (result, written, len)"
    using assms(2) by (simp add: generator_result_def)
  have c: "Compute lib' self ctx = Compute lib self ctx"
    if s: "SWF_MAX_WAVEFORM_SIZE lib' = SWF_MAX_WAVEFORM_SIZE lib"
      and g': "generator_result lib' self mem = (result, written, len)"
  proof -
    from s assms(1) have a': "temp_allocator ctx (temp_size lib') = Inr mem"
      by (simp add: temp_size_def)
    show ?thesis
      by (simp add: Compute_allocated[OF a' g'] Compute_allocated[OF assms(1) g] s)
  qed
  have t: "filter is_call (trace (Compute lib self ctx)) =
           [CalculateSpiralTrajectory mem 0
              (long_of_int (base_resolution self)) (long_of_int (spiral_arms self))
              (double_of_float (field_of_view self)) (double_of_float (max_grad_ampl self))
              (double_of_float (min_rise_time self)) (double_of_float (dwell_time self))
              (double_of_float (readout_os self)) (double_of_float (gradient_delay self))
              (double_of_float (larmor_const self))]"
    by (simp add: Compute_allocated[OF assms(1) g])
  have o: "outcome (Compute lib self ctx) =
           (if result \<noteq> 0 then
              Some (CtxFailure ctx (Internal ''failed during `calculate_spiral_trajectory`''))
            else if 0 \<le> sint len \<and> sint len \<le> int (SWF_MAX_WAVEFORM_SIZE lib) then
              Some (set_output ctx 0 \<lparr>dtype = DT_FLOAT, shape = [sint len, 2], buf = written\<rparr>)
            else None)"
    by (simp add: Compute_allocated[OF assms(1) g] set_output_def)
  show ?thesis
  proof (intro conjI impI)
    show "filter is_call (trace (Compute lib self ctx)) =
           [CalculateSpiralTrajectory mem 0
              (long_of_int (base_resolution self)) (long_of_int (spiral_arms self))
              (double_of_float (field_of_view self)) (double_of_float (max_grad_ampl self))
              (double_of_float (min_rise_time self)) (double_of_float (dwell_time self))
              (double_of_float (readout_os self)) (double_of_float (gradient_delay self))
              (double_of_float (larmor_const self))]"
      by (rule t)
    show "length (filter is_call (trace (Compute lib self ctx))) = 1"
      by (simp add: t)
    show "outcome (Compute lib self ctx) =
           (if result \<noteq> 0 then
              Some (CtxFailure ctx (Internal ''failed during `calculate_spiral_trajectory`''))
            else if 0 \<le> sint len \<and> sint len \<le> int (SWF_MAX_WAVEFORM_SIZE lib) then
              Some (set_output ctx 0 \<lparr>dtype = DT_FLOAT, shape = [sint len, 2], buf = written\<rparr>)
            else None)"
      by (rule o)
  next
    assume "SWF_MAX_WAVEFORM_SIZE lib' = SWF_MAX_WAVEFORM_SIZE lib \<and>
          calculate_spiral_trajectory lib' mem 0
             (long_of_int (base_resolution self)) (long_of_int (spiral_arms self))
             (double_of_float (field_of_view self)) (double_of_float (max_grad_ampl self))
             (double_of_float (min_rise_time self)) (double_of_float (dwell_time self))
             (double_of_float (readout_os self)) (double_of_float (gradient_delay self))
             (double_of_float (larmor_const self)) = (result, written, len)"
    then show "Compute lib' self ctx = Compute lib self ctx"
      by (intro c) (simp_all add: generator_result_def)
  qed (simp_all only: sint_long_of_int double_of_float_exact)
qed

theorem generator_called_once_witness:
  "temp_allocator ok_context (temp_size probe_lib) = Inr stale_memory \<and>
   fst (calculate_spiral_trajectory probe_lib stale_memory 0 256 16
     0x406E000000000000 0x4038000000000000 0x3F2A36E2E0000000 0x3ED0C6F7A0000000
     0x3FF0000000000000 0 0x40E4CA2000000000) = 0 \<and>
   filter is_call (trace (Compute probe_lib example_op ok_context)) =
     [CalculateSpiralTrajectory stale_memory 0 256 16
        0x406E000000000000 0x4038000000000000 0x3F2A36E2E0000000 0x3ED0C6F7A0000000
        0x3FF0000000000000 0 0x40E4CA2000000000] \<and>
   map_option flat (returned_waveform (Compute probe_lib example_op ok_context)) =
     Some [0x406E0000, 0x40380000, 0x3F2A36E2, 0x3ED0C6F7, 0x3FF00000, 0,
           0x40E4CA20, 0x1000010]"
proof -
  let ?r = "calculate_spiral_trajectory probe_lib stale_memory 0 256 16
     0x406E000000000000 0x4038000000000000 0x3F2A36E2E0000000 0x3ED0C6F7A0000000
     0x3FF0000000000000 0 0x40E4CA2000000000"
  have p: "?r = (fst ?r, fst (snd ?r), snd (snd ?r))"
    by simp
  note w = generator_called_once[where lib = probe_lib and self = example_op
          and ctx = ok_context and mem = stale_memory and lib' = probe_lib,
          unfolded example_casts, OF ok_alloc(1) p]
  from w have t: "filter is_call (trace (Compute probe_lib example_op ok_context)) =
     [CalculateSpiralTrajectory stale_memory 0 256 16
        0x406E000000000000 0x4038000000000000 0x3F2A36E2E0000000 0x3ED0C6F7A0000000
        0x3FF0000000000000 0 0x40E4CA2000000000]"
    by (rule conjunct1)
  from w have "outcome (Compute probe_lib example_op ok_context) =
      Some (set_output ok_context 0
        \<lparr>dtype = DT_FLOAT, shape = [4, 2], buf = fst (snd ?r)\<rparr>)"
    by (simp add: probe_lib_example probe_lib_size)
  then have "map_option flat (returned_waveform (Compute probe_lib example_op ok_context)) =
     Some (map (fst (snd ?r)) [0..<8])"
    by (simp add: returned_waveform_def set_output_def ok_alloc flat_def num_elements_rows)
  with t show ?thesis
    by (simp only: probe_lib_example ok_alloc)
qed

text \<open>
  The claim as stated fails for a request whose temporary buffer cannot be allocated:
  \<open>Compute\<close> returns with the allocator's error before the call, and the routine is
  called zero times.
\<close>

theorem generator_called_once_counterexample:
  "temp_allocator oom_context (temp_size (test_lib 0 3)) = Inl out_of_memory \<and>
   length (filter is_call (trace (Compute (test_lib 0 3) example_op oom_context))) = 0 \<and>
   trace (Compute (test_lib 0 3) example_op oom_context) = [AllocateTemp DT_FLOAT [4, 2]] \<and>
   reported_error (Compute (test_lib 0 3) example_op oom_context) = Some out_of_memory"
  by (simp add: Compute_alloc_failed[OF oom_alloc(1)] oom_alloc test_lib_size
      reported_error_def)

lemma new_SpiralWaveformOp_Inr:
  assumes "GetAttr_int c ''base_resolution'' = Inr a1"
      and "GetAttr_int c ''spiral_arms'' = Inr a2"
      and "GetAttr_float c ''field_of_view'' = Inr a3"
      and "GetAttr_float c ''max_grad_ampl'' = Inr a4"
      and "GetAttr_float c ''min_rise_time'' = Inr a5"
      and "GetAttr_float c ''dwell_time'' = Inr a6"
      and "GetAttr_float c ''readout_os'' = Inr a7"
      and "GetAttr_float c ''gradient_delay'' = Inr a8"
      and "GetAttr_float c ''larmor_const'' = Inr a9"
  shows "new_SpiralWaveformOp c =
     Inr \<lparr>base_resolution = a1, spiral_arms = a2, field_of_view = a3,
          max_grad_ampl = a4, min_rise_time = a5, dwell_time = a6,
          readout_os = a7, gradient_delay = a8, larmor_const = a9\<rparr>"
  using assms by (simp add: new_SpiralWaveformOp_def OP_REQUIRES_OK_def)

lemma reported_error_exact:
  assumes "status ctx = None"
  shows "reported_error (Compute lib self ctx) =
     (case temp_allocator ctx (temp_size lib) of
        Inl e \<Rightarrow> Some e
      | Inr mem \<Rightarrow>
          if fst (generator_result lib self mem) \<noteq> 0
          then Some (Internal ''failed during `calculate_spiral_trajectory`'')
          else None)"
proof (cases "temp_allocator ctx (temp_size lib)")
  case (Inl e)
  with assms show ?thesis
    by (simp add: Compute_alloc_failed[OF Inl] reported_error_def)
next
  case (Inr mem)
  obtain result written len where g: "generator_result lib self mem = (result, written, len)"
    by (cases "generator_result lib self mem") auto
  from assms Inr show ?thesis
    by (simp add: Compute_allocated[OF Inr g] reported_error_def g)
qed

lemma Compute_outcome:
  assumes "temp_allocator ctx (temp_size lib) = Inr mem"
      and "generator_result lib self mem = (result, written, len)"
  shows "outcome (Compute lib self ctx) =
           (if result \<noteq> 0 then
              Some (CtxFailure ctx (Internal ''failed during `calculate_spiral_trajectory`''))
            else if 0 \<le> sint len \<and> sint len \<le> int (SWF_MAX_WAVEFORM_SIZE lib) then
              Some (set_output ctx 0 \<lparr>dtype = DT_FLOAT, shape = [sint len, 2], buf = written\<rparr>)
            else None)"
  by (simp add: Compute_allocated[OF assms] set_output_def)

lemma invalid_attrs_values:
  "GetAttr_int invalid_attrs ''base_resolution'' = Inr (- 1)"
  "GetAttr_int invalid_attrs ''spiral_arms'' = Inr 0"
  "GetAttr_float invalid_attrs ''field_of_view'' = Inr 0xC3700000"
  "GetAttr_float invalid_attrs ''max_grad_ampl'' = Inr 0x80000000"
  "GetAttr_float invalid_attrs ''min_rise_time'' = Inr 0"
  "GetAttr_float invalid_attrs ''dwell_time'' = Inr 0"
  "GetAttr_float invalid_attrs ''readout_os'' = Inr 0x3F000000"
  "GetAttr_float invalid_attrs ''gradient_delay'' = Inr 0"
  "GetAttr_float invalid_attrs ''larmor_const'' = Inr 0x7FC00000"
  by (simp_all add: invalid_attrs_def)

lemma invalid_casts:
  "long_of_int (- 1) = - 1"
  "long_of_int 0 = 0"
  "double_of_float 0xC3700000 = 0xC06E000000000000"
  "double_of_float 0x80000000 = 0x8000000000000000"
  "double_of_float 0 = 0"
  "double_of_float 0x3F000000 = 0x3FE0000000000000"
  "double_of_float 0x7FC00000 = 0x7FF8000000000000"
  by (simp_all add: long_of_int_def double_of_float_def)

text \<open>
  Claim C7, as amended. Whatever values the nine attributes have, non-positive ones
  included, the constructor stores them as soon as the framework hands them over and
  \<open>Compute\<close> raises no error of its own about them: on a context with status OK the
  status it reports is the allocator's error when the temporary is refused, the
  Internal error exactly when the routine returns a nonzero result, and OK otherwise.
  Whenever the temporary is allocated, the routine is called on the stored values,
  passed on with their values unchanged, and its answer to that call decides the run.
\<close>

theorem no_attribute_validation:
  assumes "GetAttr_int c ''base_resolution'' = Inr a1"
      and "GetAttr_int c ''spiral_arms'' = Inr a2"
      and "GetAttr_float c ''field_of_view'' = Inr a3"
      and "GetAttr_float c ''max_grad_ampl'' = Inr a4"
      and "GetAttr_float c ''min_rise_time'' = Inr a5"
      and "GetAttr_float c ''dwell_time'' = Inr a6"
      and "GetAttr_float c ''readout_os'' = Inr a7"
      and "GetAttr_float c ''gradient_delay'' = Inr a8"
      and "GetAttr_float c ''larmor_const'' = Inr a9"
  shows "\<exists>self.
     new_SpiralWaveformOp c = Inr self \<and>
     self = \<lparr>base_resolution = a1, spiral_arms = a2, field_of_view = a3,
          max_grad_ampl = a4, min_rise_time = a5, dwell_time = a6,
          readout_os = a7, gradient_delay = a8, larmor_const = a9\<rparr> \<and>
     (\<forall>lib ctx mem result written len.
        temp_allocator ctx (temp_size lib) = Inr mem \<longrightarrow>
        calculate_spiral_trajectory lib mem 0 (long_of_int a1) (long_of_int a2)
             (double_of_float a3) (double_of_float a4) (double_of_float a5)
             (double_of_float a6) (double_of_float a7) (double_of_float a8)
             (double_of_float a9) = (result, written, len) \<longrightarrow>
          filter is_call (trace (Compute lib self ctx)) =
            [CalculateSpiralTrajectory mem 0 (long_of_int a1) (long_of_int a2)
             (double_of_float a3) (double_of_float a4) (double_of_float a5)
             (double_of_float a6) (double_of_float a7) (double_of_float a8)
             (double_of_float a9)] \<and>
          outcome (Compute lib self ctx) =
            (if result \<noteq> 0 then
              Some (CtxFailure ctx (Internal ''failed during `calculate_spiral_trajectory`''))
            else if 0 \<le> sint len \<and> sint len \<le> int (SWF_MAX_WAVEFORM_SIZE lib) then
              Some (set_output ctx 0 \<lparr>dtype = DT_FLOAT, shape = [sint len, 2], buf = written\<rparr>)
            else None)) \<and>
     sint (long_of_int a1) = sint a1 \<and> sint (long_of_int a2) = sint a2 \<and>
     double_value (double_of_float a3) = float_value a3 \<and>
     double_value (double_of_float a4) = float_value a4 \<and>
     double_value (double_of_float a5) = float_value a5 \<and>
     double_value (double_of_float a6) = float_value a6 \<and>
     double_value (double_of_float a7) = float_value a7 \<and>
     double_value (double_of_float a8) = float_value a8 \<and>
     double_value (double_of_float a9) = float_value a9 \<and>
     (\<forall>lib (ctx :: OpKernelContext). status ctx = None \<longrightarrow>
        reported_error (Compute lib self ctx) =
          (case temp_allocator ctx (temp_size lib) of
             Inl e \<Rightarrow> Some e
           | Inr mem \<Rightarrow>
               if fst (calculate_spiral_trajectory lib mem 0 (long_of_int a1) (long_of_int a2)
             (double_of_float a3) (double_of_float a4) (double_of_float a5)
             (double_of_float a6) (double_of_float a7) (double_of_float a8)
             (double_of_float a9)) \<noteq> 0
               then Some (Internal ''failed during `calculate_spiral_trajectory`'')
               else None))"
proof (intro exI conjI allI impI)
  show "new_SpiralWaveformOp c =
     Inr \<lparr>base_resolution = a1, spiral_arms = a2, field_of_view = a3,
          max_grad_ampl = a4, min_rise_time = a5, dwell_time = a6,
          readout_os = a7, gradient_delay = a8, larmor_const = a9\<rparr>"
    using assms by (rule new_SpiralWaveformOp_Inr)
  show "\<lparr>base_resolution = a1, spiral_arms = a2, field_of_view = a3,
          max_grad_ampl = a4, min_rise_time = a5, dwell_time = a6,
          readout_os = a7, gradient_delay = a8, larmor_const = a9\<rparr> =
        \<lparr>base_resolution = a1, spiral_arms = a2, field_of_view = a3,
          max_grad_ampl = a4, min_rise_time = a5, dwell_time = a6,
          readout_os = a7, gradient_delay = a8, larmor_const = a9\<rparr>" ..
  show "sint (long_of_int a1) = sint a1" "sint (long_of_int a2) = sint a2"
    by (rule sint_long_of_int)+
  show "double_value (double_of_float a3) = float_value a3"
    "double_value (double_of_float a4) = float_value a4"
    "double_value (double_of_float a5) = float_value a5"
    "double_value (double_of_float a6) = float_value a6"
    "double_value (double_of_float a7) = float_value a7"
    "double_value (double_of_float a8) = float_value a8"
    "double_value (double_of_float a9) = float_value a9"
    by (rule double_of_float_exact)+
next
  fix lib and ctx :: OpKernelContext and mem result written len
  let ?self = "\<lparr>base_resolution = a1, spiral_arms = a2, field_of_view = a3,
          max_grad_ampl = a4, min_rise_time = a5, dwell_time = a6,
          readout_os = a7, gradient_delay = a8, larmor_const = a9\<rparr>"
  assume a: "temp_allocator ctx (temp_size lib) = Inr mem"
    and r: "calculate_spiral_trajectory lib mem 0 (long_of_int a1) (long_of_int a2)
             (double_of_float a3) (double_of_float a4) (double_of_float a5)
             (double_of_float a6) (double_of_float a7) (double_of_float a8)
             (double_of_float a9) = (result, written, len)"
  from r have g: "generator_result lib ?self mem = (result, written, len)"
    by (simp add: generator_result_def)
  show "filter is_call (trace (Compute lib ?self ctx)) =
            [CalculateSpiralTrajectory mem 0 (long_of_int a1) (long_of_int a2)
             (double_of_float a3) (double_of_float a4) (double_of_float a5)
             (double_of_float a6) (double_of_float a7) (double_of_float a8)
             (double_of_float a9)]"
    by (simp add: Compute_allocated[OF a g])
  show "outcome (Compute lib ?self ctx) =
            (if result \<noteq> 0 then
              Some (CtxFailure ctx (Internal ''failed during `calculate_spiral_trajectory`''))
            else if 0 \<le> sint len \<and> sint len \<le> int (SWF_MAX_WAVEFORM_SIZE lib) then
              Some (set_output ctx 0 \<lparr>dtype = DT_FLOAT, shape = [sint len, 2], buf = written\<rparr>)
            else None)"
    using a g by (rule Compute_outcome)
next
  fix lib and ctx :: OpKernelContext
  let ?self = "\<lparr>base_resolution = a1, spiral_arms = a2, field_of_view = a3,
          max_grad_ampl = a4, min_rise_time = a5, dwell_time = a6,
          readout_os = a7, gradient_delay = a8, larmor_const = a9\<rparr>"
  assume "status ctx = None"
  then have "reported_error (Compute lib ?self ctx) =
     (case temp_allocator ctx (temp_size lib) of
        Inl e \<Rightarrow> Some e
      | Inr mem \<Rightarrow>
          if fst (generator_result lib ?self mem) \<noteq> 0
          then Some (Internal ''failed during `calculate_spiral_trajectory`'')
          else None)"
    by (rule reported_error_exact)
  then show "reported_error (Compute lib ?self ctx) =
          (case temp_allocator ctx (temp_size lib) of
             Inl e \<Rightarrow> Some e
           | Inr mem \<Rightarrow>
               if fst (calculate_spiral_trajectory lib mem 0 (long_of_int a1) (long_of_int a2)
             (double_of_float a3) (double_of_float a4) (double_of_float a5)
             (double_of_float a6) (double_of_float a7) (double_of_float a8)
             (double_of_float a9)) \<noteq> 0
               then Some (Internal ''failed during `calculate_spiral_trajectory`'')
               else None)"
    by (simp add: generator_result_def cong: sum.case_cong)
qed

theorem no_attribute_validation_witness:
  "GetAttr_int invalid_attrs ''base_resolution'' = Inr (- 1) \<and>
   GetAttr_float invalid_attrs ''max_grad_ampl'' = Inr 0x80000000 \<and>
   new_SpiralWaveformOp invalid_attrs = Inr invalid_op \<and>
   sint (base_resolution invalid_op) = - 1 \<and>
   status ok_context = None \<and>
   temp_allocator ok_context (temp_size probe_lib) = Inr stale_memory \<and>
   filter is_call (trace (Compute probe_lib invalid_op ok_context)) =
     [CalculateSpiralTrajectory stale_memory 0 (- 1) 0
        0xC06E000000000000 0x8000000000000000 0 0 0x3FE0000000000000 0 0x7FF8000000000000] \<and>
   reported_error (Compute probe_lib invalid_op ok_context) = None \<and>
   map_option flat (returned_waveform (Compute probe_lib invalid_op ok_context)) =
     Some [0xC06E0000, 0x80000000, 0, 0, 0x3FE00000, 0, 0x7FF80000, 0xFFFF0000]"
proof -
  let ?r = "calculate_spiral_trajectory probe_lib stale_memory 0 (- 1) 0
     0xC06E000000000000 0x8000000000000000 0 0 0x3FE0000000000000 0
     0x7FF8000000000000"
  have p: "?r = (fst ?r, fst (snd ?r), snd (snd ?r))"
    by simp
  from no_attribute_validation[OF invalid_attrs_values]
  have n: "new_SpiralWaveformOp invalid_attrs = Inr invalid_op"
    and t: "\<forall>lib ctx mem result written len.
        temp_allocator ctx (temp_size lib) = Inr mem \<longrightarrow>
        calculate_spiral_trajectory lib mem 0 (- 1) 0
          0xC06E000000000000 0x8000000000000000 0 0 0x3FE0000000000000 0
          0x7FF8000000000000 = (result, written, len) \<longrightarrow>
          filter is_call (trace (Compute lib invalid_op ctx)) =
            [CalculateSpiralTrajectory mem 0 (- 1) 0
               0xC06E000000000000 0x8000000000000000 0 0 0x3FE0000000000000 0
               0x7FF8000000000000] \<and>
          outcome (Compute lib invalid_op ctx) =
            (if result \<noteq> 0 then
              Some (CtxFailure ctx (Internal ''failed during `calculate_spiral_trajectory`''))
            else if 0 \<le> sint len \<and> sint len \<le> int (SWF_MAX_WAVEFORM_SIZE lib) then
              Some (set_output ctx 0 \<lparr>dtype = DT_FLOAT, shape = [sint len, 2], buf = written\<rparr>)
            else None)"
    unfolding invalid_casts by (simp_all add: invalid_op_def)
  from t[rule_format, OF ok_alloc(1) p]
  have tr: "filter is_call (trace (Compute probe_lib invalid_op ok_context)) =
     [CalculateSpiralTrajectory stale_memory 0 (- 1) 0
        0xC06E000000000000 0x8000000000000000 0 0 0x3FE0000000000000 0 0x7FF8000000000000]"
    and o: "outcome (Compute probe_lib invalid_op ok_context) =
      Some (set_output ok_context 0
        \<lparr>dtype = DT_FLOAT, shape = [4, 2], buf = fst (snd ?r)\<rparr>)"
    by (simp_all add: probe_lib_invalid probe_lib_size)
  from o have f: "map_option flat (returned_waveform (Compute probe_lib invalid_op ok_context)) =
     Some (map (fst (snd ?r)) [0..<8])"
    and e: "reported_error (Compute probe_lib invalid_op ok_context) = None"
    by (simp_all add: returned_waveform_def reported_error_def set_output_def ok_alloc
        flat_def num_elements_rows)
  have s: "sint (base_resolution invalid_op) = - 1"
    by (simp add: invalid_op_def)
  from n tr f e s show ?thesis
    by (simp only: probe_lib_invalid invalid_attrs_values ok_alloc)
qed

text \<open>
  The claim as stated fails for a request whose temporary buffer cannot be allocated:
  the kernel built from the attributes -1, 0, -240.0, ... returns with the allocator's
  error, and no value is forwarded to the routine.
\<close>

theorem no_forwarding_without_buffer_counterexample:
  "new_SpiralWaveformOp invalid_attrs = Inr invalid_op \<and>
   temp_allocator oom_context (temp_size probe_lib) = Inl out_of_memory \<and>
   trace (Compute probe_lib invalid_op oom_context) = [AllocateTemp DT_FLOAT [4, 2]] \<and>
   filter is_call (trace (Compute probe_lib invalid_op oom_context)) = [] \<and>
   reported_error (Compute probe_lib invalid_op oom_context) = Some out_of_memory \<and>
   returned_waveform (Compute probe_lib invalid_op oom_context) = None"
  using new_SpiralWaveformOp_Inr[OF invalid_attrs_values]
  by (simp add: Compute_alloc_failed[OF oom_alloc(1)] oom_alloc probe_lib_size
      reported_error_def returned_waveform_def invalid_op_def)

lemma flat_cong:
  assumes "\<forall>i < 2 * nat L. b i = b' i"
  shows "flat \<lparr>dtype = dt, shape = [L, 2], buf = b\<rparr> =
         flat \<lparr>dtype = dt, shape = [L, 2], buf = b'\<rparr>"
  using assms by (simp add: flat_def num_elements_rows)

lemma ignores_prior_contentsD:
  assumes "ignores_prior_contents lib"
      and "generator_result lib self mem = (result, written, len)"
      and "generator_result lib self mem' = (result', written', len')"
  shows "result' = result" "len' = len" "\<forall>i < 2 * nat (sint len). written i = written' i"
proof -
  note p = assms(1)[unfolded ignores_prior_contents_def, rule_format,
      of mem 0 "long_of_int (base_resolution self)" "long_of_int (spiral_arms self)"
         "double_of_float (field_of_view self)" "double_of_float (max_grad_ampl self)"
         "double_of_float (min_rise_time self)" "double_of_float (dwell_time self)"
         "double_of_float (readout_os self)" "double_of_float (gradient_delay self)"
         "double_of_float (larmor_const self)" mem',
      folded generator_result_def, unfolded assms(2,3)]
  from p show "result' = result" "len' = len" by simp_all
  from p show "\<forall>i < 2 * nat (sint len). written i = written' i" by simp
qed

lemma test_lib_ignores_prior_contents: "ignores_prior_contents (test_lib r 3)"
  by (simp add: ignores_prior_contents_def test_lib_def)

lemma observable_example:
  "observable (Compute (test_lib 0 3) example_op ok_context) =
     (False, None, Some (DT_FLOAT, [3, 2], [0, 1, 2, 3, 4, 5]))"
  "observable (Compute (test_lib 0 3) example_op oom_context) =
     (False, Some out_of_memory, None)"
  by (simp_all add: Compute_allocated[OF ok_alloc(1) test_lib_result]
      Compute_alloc_failed[OF oom_alloc(1)] test_lib_size ok_alloc oom_alloc
      observable_def aborted_def reported_error_def returned_waveform_def
      flat_def num_elements_rows upt_rec)

text \<open>
  Claim C8, as amended. Take two invocations with identical attribute values, on contexts
  that carry the same status and whose allocators give the same outcome (both hand out
  the temporary, or both refuse with the same error), and a routine that is a function
  of its numeric arguments. Then a caller cannot tell the two runs apart: same abort or
  not, same reported status, same dtype, shape and element sequence of the waveform.
\<close>

theorem same_inputs_same_outputs:
  assumes "ignores_prior_contents lib"
      and "base_resolution self1 = base_resolution self2"
      and "spiral_arms self1 = spiral_arms self2"
      and "field_of_view self1 = field_of_view self2"
      and "max_grad_ampl self1 = max_grad_ampl self2"
      and "min_rise_time self1 = min_rise_time self2"
      and "dwell_time self1 = dwell_time self2"
      and "readout_os self1 = readout_os self2"
      and "gradient_delay self1 = gradient_delay self2"
      and "larmor_const self1 = larmor_const self2"
      and "status ctx1 = status ctx2"
      and "same_allocation_outcome (temp_allocator ctx1 (temp_size lib))
             (temp_allocator ctx2 (temp_size lib))"
  shows "observable (Compute lib self1 ctx1) = observable (Compute lib self2 ctx2)"
proof -
  have self: "self1 = self2"
    using assms(2-10) by simp
  show ?thesis
  proof (cases "temp_allocator ctx1 (temp_size lib)")
    case (Inl e)
    with assms(12) have 2: "temp_allocator ctx2 (temp_size lib) = Inl e"
      by (cases "temp_allocator ctx2 (temp_size lib)") simp_all
    show ?thesis
      using assms(11)
      by (simp add: self Compute_alloc_failed[OF Inl] Compute_alloc_failed[OF 2]
          observable_def aborted_def reported_error_def returned_waveform_def)
  next
    case (Inr mem1)
    with assms(12) obtain mem2 where 2: "temp_allocator ctx2 (temp_size lib) = Inr mem2"
      by (cases "temp_allocator ctx2 (temp_size lib)") simp_all
    obtain r1 w1 l1 where g1: "generator_result lib self2 mem1 = (r1, w1, l1)"
      by (cases "generator_result lib self2 mem1") auto
    obtain r2 w2 l2 where g2: "generator_result lib self2 mem2 = (r2, w2, l2)"
      by (cases "generator_result lib self2 mem2") auto
    from ignores_prior_contentsD[OF assms(1) g1 g2]
    have eq: "r2 = r1" "l2 = l1" and w: "\<forall>i < 2 * nat (sint l1). w1 i = w2 i"
      by simp_all
    have "flat \<lparr>dtype = DT_FLOAT, shape = [sint l1, 2], buf = w1\<rparr> =
          flat \<lparr>dtype = DT_FLOAT, shape = [sint l1, 2], buf = w2\<rparr>"
      using w by (rule flat_cong)
    then show ?thesis
      using assms(11)
      by (simp add: self eq Compute_allocated[OF Inr g1] Compute_allocated[OF 2 g2]
          observable_def aborted_def reported_error_def returned_waveform_def
          split: option.splits)
  qed
qed

theorem same_inputs_same_outputs_witness:
  "ignores_prior_contents (test_lib 0 3) \<and>
   status ok_context = status other_context \<and>
   temp_allocator ok_context (temp_size (test_lib 0 3)) = Inr stale_memory \<and>
   temp_allocator other_context (temp_size (test_lib 0 3)) = Inr other_memory \<and>
   stale_memory 0 \<noteq> other_memory 0 \<and>
   observable (Compute (test_lib 0 3) example_op other_context) =
     observable (Compute (test_lib 0 3) example_op ok_context) \<and>
   observable (Compute (test_lib 0 3) example_op other_context) =
     (False, None, Some (DT_FLOAT, [3, 2], [0, 1, 2, 3, 4, 5]))"
  using same_inputs_same_outputs[where lib = "test_lib 0 3" and ?self1.0 = example_op
      and ?self2.0 = example_op and ?ctx1.0 = other_context and ?ctx2.0 = ok_context,
      OF test_lib_ignores_prior_contents]
  by (simp add: ok_alloc other_alloc test_lib_ignores_prior_contents observable_example
      stale_memory_def other_memory_def)

text \<open>
  The claim as stated fails when the surroundings differ: the same kernel, with the same
  attribute values and the same routine, succeeds on a context whose allocator hands out
  the temporary and reports the allocator's error on one whose allocator refuses.
\<close>

theorem same_inputs_same_outputs_counterexample:
  "ignores_prior_contents (test_lib 0 3) \<and>
   observable (Compute (test_lib 0 3) example_op ok_context) =
     (False, None, Some (DT_FLOAT, [3, 2], [0, 1, 2, 3, 4, 5])) \<and>
   observable (Compute (test_lib 0 3) example_op oom_context) =
     (False, Some out_of_memory, None) \<and>
   observable (Compute (test_lib 0 3) example_op ok_context) \<noteq>
     observable (Compute (test_lib 0 3) example_op oom_context)"
  by (simp add: test_lib_ignores_prior_contents observable_example)

lemma kernel_unchanged: "kernel_object (Compute lib self ctx) = self"
proof (cases "temp_allocator ctx (temp_size lib)")
  case (Inl e)
  then show ?thesis
    by (simp add: Compute_alloc_failed[OF Inl])
next
  case (Inr mem)
  obtain result written len where g: "generator_result lib self mem = (result, written, len)"
    by (cases "generator_result lib self mem") auto
  show ?thesis
    by (simp add: Compute_allocated[OF Inr g])
qed

text \<open>
  Claim C9. Every run of \<open>Compute\<close> leaves the kernel object as it found it, all
  nine attribute fields included, so a later invocation behaves as it would have on the
  untouched kernel; that later invocation starts with its own request for a temporary
  and hands the routine the memory its own context gave it.
\<close>

theorem Compute_frame:
  "kernel_object (Compute lib self ctx) = self \<and>
   base_resolution (kernel_object (Compute lib self ctx)) = base_resolution self \<and>
   spiral_arms (kernel_object (Compute lib self ctx)) = spiral_arms self \<and>
   field_of_view (kernel_object (Compute lib self ctx)) = field_of_view self \<and>
   max_grad_ampl (kernel_object (Compute lib self ctx)) = max_grad_ampl self \<and>
   min_rise_time (kernel_object (Compute lib self ctx)) = min_rise_time self \<and>
   dwell_time (kernel_object (Compute lib self ctx)) = dwell_time self \<and>
   readout_os (kernel_object (Compute lib self ctx)) = readout_os self \<and>
   gradient_delay (kernel_object (Compute lib self ctx)) = gradient_delay self \<and>
   larmor_const (kernel_object (Compute lib self ctx)) = larmor_const self \<and>
   Compute lib (kernel_object (Compute lib self ctx)) ctx2 = Compute lib self ctx2 \<and>
   take 1 (trace (Compute lib (kernel_object (Compute lib self ctx)) ctx2)) =
     [AllocateTemp DT_FLOAT [int (SWF_MAX_WAVEFORM_SIZE lib), 2]] \<and>
   (temp_allocator ctx2 (temp_size lib) = Inr mem2 \<longrightarrow>
      filter is_call (trace (Compute lib (kernel_object (Compute lib self ctx)) ctx2)) =
        [CalculateSpiralTrajectory mem2 0
           (long_of_int (base_resolution self)) (long_of_int (spiral_arms self))
           (double_of_float (field_of_view self)) (double_of_float (max_grad_ampl self))
           (double_of_float (min_rise_time self)) (double_of_float (dwell_time self))
           (double_of_float (readout_os self)) (double_of_float (gradient_delay self))
           (double_of_float (larmor_const self))])"
proof -
  have "filter is_call (trace (Compute lib self ctx2)) =
              [CalculateSpiralTrajectory mem2 0
                 (long_of_int (base_resolution self)) (long_of_int (spiral_arms self))
                 (double_of_float (field_of_view self)) (double_of_float (max_grad_ampl self))
                 (double_of_float (min_rise_time self)) (double_of_float (dwell_time self))
                 (double_of_float (readout_os self)) (double_of_float (gradient_delay self))
                 (double_of_float (larmor_const self))]"
    if a: "temp_allocator ctx2 (temp_size lib) = Inr mem2"
  proof -
    obtain result written len where
      g: "generator_result lib self mem2 = (result, written, len)"
      by (cases "generator_result lib self mem2") auto
    show ?thesis by (simp add: Compute_allocated[OF a g])
  qed
  then show ?thesis
    using trace_starts_with_allocation[of lib self ctx2] by (simp add: kernel_unchanged)
qed

theorem Compute_frame_witness:
  "kernel_object (Compute (test_lib 0 3) example_op ok_context) = example_op \<and>
   kernel_object (Compute (test_lib 1 3) example_op ok_context) = example_op \<and>
   kernel_object (Compute (test_lib 0 5) example_op ok_context) = example_op \<and>
   kernel_object (Compute (test_lib 0 3) example_op oom_context) = example_op \<and>
   Compute (test_lib 0 3) (kernel_object (Compute (test_lib 0 3) example_op ok_context))
       other_context = Compute (test_lib 0 3) example_op other_context \<and>
   temp_allocator other_context (temp_size (test_lib 0 3)) = Inr other_memory \<and>
   filter is_call (trace (Compute (test_lib 0 3)
       (kernel_object (Compute (test_lib 0 3) example_op ok_context)) other_context)) =
     [CalculateSpiralTrajectory other_memory 0 256 16
        0x406E000000000000 0x4038000000000000 0x3F2A36E2E0000000 0x3ED0C6F7A0000000
        0x3FF0000000000000 0 0x40E4CA2000000000]"
  using Compute_frame[where lib = "test_lib 0 3" and self = example_op
          and ctx = ok_context and ?ctx2.0 = other_context and ?mem2.0 = other_memory]
        Compute_frame[where lib = "test_lib 1 3" and self = example_op
          and ctx = ok_context and ?ctx2.0 = other_context and ?mem2.0 = other_memory]
        Compute_frame[where lib = "test_lib 0 5" and self = example_op
          and ctx = ok_context and ?ctx2.0 = other_context and ?mem2.0 = other_memory]
        Compute_frame[where lib = "test_lib 0 3" and self = example_op
          and ctx = oom_context and ?ctx2.0 = other_context and ?mem2.0 = other_memory]
  by (simp add: other_alloc example_casts kernel_unchanged)

lemma shape_filled_temp: "shape (filled_temp lib b) = [int (SWF_MAX_WAVEFORM_SIZE lib), 2]"
  by (simp add: filled_temp_def)

text \<open>
  Claim C10. Once the routine has returned 0, the run reaches the slice with whatever
  length the routine stored: the slice passes the bounds check of the framework, and the
  run is not stopped, if and only if 0 \<le> waveform_length \<le> \<open>SWF_MAX_WAVEFORM_SIZE\<close>;
  in that case the output lies within the temporary: it has no more elements than the
  temporary and shows the temporary's first elements.
\<close>

theorem slice_in_bounds_iff:
  assumes "temp_allocator ctx (temp_size lib) = Inr mem"
      and "generator_result lib self mem = (0, written, len)"
  shows "(\<not> aborted (Compute lib self ctx)) =
           (0 \<le> sint len \<and> sint len \<le> int (SWF_MAX_WAVEFORM_SIZE lib)) \<and>
         (Slice (filled_temp lib written) 0 (sint len) \<noteq> None) =
           (0 \<le> sint len \<and> sint len \<le> int (SWF_MAX_WAVEFORM_SIZE lib)) \<and>
         (0 \<le> sint len \<and> sint len \<le> int (SWF_MAX_WAVEFORM_SIZE lib) \<longrightarrow>
            (\<exists>w. Slice (filled_temp lib written) 0 (sint len) = Some w \<and>
                 outputs (the (outcome (Compute lib self ctx))) 0 = Some w \<and>
                 num_elements (shape w) \<le> num_elements (shape (filled_temp lib written)) \<and>
                 (\<forall>i < num_elements (shape w). buf w i = written i)))"
  by (auto simp add: Compute_allocated[OF assms] aborted_def Slice_filled_temp
      num_elements_rows shape_filled_temp)

theorem slice_in_bounds_iff_witness:
  "temp_allocator ok_context (temp_size (test_lib 0 3)) = Inr stale_memory \<and>
   fst (generator_result (test_lib 0 3) example_op stale_memory) = 0 \<and>
   \<not> aborted (Compute (test_lib 0 0) example_op ok_context) \<and>
   \<not> aborted (Compute (test_lib 0 3) example_op ok_context) \<and>
   \<not> aborted (Compute (test_lib 0 4) example_op ok_context) \<and>
   aborted (Compute (test_lib 0 5) example_op ok_context) \<and>
   aborted (Compute (test_lib 0 (- 1)) example_op ok_context)"
  using slice_in_bounds_iff[where lib = "test_lib 0 0" and self = example_op,
          OF ok_alloc(1) test_lib_result]
        slice_in_bounds_iff[where lib = "test_lib 0 3" and self = example_op,
          OF ok_alloc(1) test_lib_result]
        slice_in_bounds_iff[where lib = "test_lib 0 4" and self = example_op,
          OF ok_alloc(1) test_lib_result]
        slice_in_bounds_iff[where lib = "test_lib 0 5" and self = example_op,
          OF ok_alloc(1) test_lib_result]
        slice_in_bounds_iff[where lib = "test_lib 0 (- 1)" and self = example_op,
          OF ok_alloc(1) test_lib_result]
  by (simp add: ok_alloc test_lib_result test_lib_size)

end
